theory Spec2Isabelle
  imports Main "HOL-Library.Word"
begin

section \<open>The TowerOps provider: client and resources\<close>

text \<open>
  The provider's Go sources are \<^verbatim>\<open>internal/provider/client.go\<close> (the HTTP client),
  \<^verbatim>\<open>site_resource.go\<close> and \<^verbatim>\<open>device_resource.go\<close> (the resources). This theory embeds
  the client and the resource methods as functions that pass the remote system along
  explicitly and return Go's \<^verbatim>\<open>(value, error)\<close> pairs as sums.

  Conventions.
  \<^item> Go's \<^verbatim>\<open>int\<close> and \<^verbatim>\<open>int64\<close> are both 64-bit words (a 64-bit target), so the
    conversions \<^verbatim>\<open>int(...)\<close> and \<^verbatim>\<open>int64(...)\<close> between them are identities.
  \<^item> A pointer field \<^verbatim>\<open>*T\<close> is a \<open>T option\<close>, \<^verbatim>\<open>nil\<close> being \<open>None\<close>.
  \<^item> A JSON text is its value tree; a body that is not JSON is kept as its text. Strings
    are valid UTF-8, which \<^verbatim>\<open>json.Marshal\<close> writes as they are.
  \<^item> An \<^verbatim>\<open>error\<close> is a value of the datatype \<open>error\<close>, one constructor per place
    where the client makes one; the text of \<^verbatim>\<open>err.Error()\<close> is not formatted.
\<close>

subsection \<open>JSON values\<close>

datatype json =
    JNull
  | JBool bool
  | JNumber int
  | JFraction string
  | JString string
  | JArray "json list"
  | JObject "(string \<times> json) list"

text \<open>
  \<open>JNumber\<close> is a number written as an integer literal, \<open>JFraction\<close> any other number
  (kept as its literal). The body of an HTTP message is either bytes that
  \<^verbatim>\<open>encoding/json\<close> parses, or bytes that it rejects.
\<close>

datatype payload = Valid json | Invalid string

subsection \<open>The client's data (client.go)\<close>

record Site =
  Site_ID :: string
  Site_Name :: string
  Site_Location :: "string option"
  Site_SNMPCommunity :: "string option"
  Site_InsertedAt :: string

text \<open>
  Modelled from the spec: the declaration of \<^verbatim>\<open>Device\<close> that device_resource.go is written
  against. The sources hold the declaration of the site-only variant (\<^verbatim>\<open>SiteID string\<close>, no
  organization, no SNMPv3 group); device_resource.go takes the address of a string for
  \<^verbatim>\<open>SiteID\<close> and \<^verbatim>\<open>OrganizationID\<close> and reads six SNMPv3 pointers. The record is the
  declared struct with exactly these changes; the JSON keys of the added fields are the
  attribute names of section 3 of the specification and of the device schema, and the
  changed and added pointers are written with \<^verbatim>\<open>omitempty\<close> as the declared pointers are.
\<close>

record Device =
  Device_ID :: string
  Device_SiteID :: "string option"
  Device_OrganizationID :: "string option"
  Device_Name :: "string option"
  Device_IPAddress :: string
  Device_Description :: "string option"
  Device_MonitoringEnabled :: "bool option"
  Device_SNMPEnabled :: "bool option"
  Device_SNMPVersion :: "string option"
  Device_SNMPPort :: "64 word option"
  Device_SNMPv3SecurityLevel :: "string option"
  Device_SNMPv3Username :: "string option"
  Device_SNMPv3AuthProtocol :: "string option"
  Device_SNMPv3AuthPassword :: "string option"
  Device_SNMPv3PrivProtocol :: "string option"
  Device_SNMPv3PrivPassword :: "string option"
  Device_CheckIntervalSeconds :: "64 word option"
  Device_InsertedAt :: string

record APIError =
  APIError_Error :: string
  APIError_Errors :: "(string \<times> string) list"

text \<open>The zero values that \<^verbatim>\<open>var result Site\<close> and \<^verbatim>\<open>Device{...}\<close> start from.\<close>

definition zero_Site :: Site where
  "zero_Site = \<lparr>Site_ID = [], Site_Name = [], Site_Location = None,
     Site_SNMPCommunity = None, Site_InsertedAt = []\<rparr>"

definition zero_Device :: Device where
  "zero_Device = \<lparr>Device_ID = [], Device_SiteID = None, Device_OrganizationID = None,
     Device_Name = None, Device_IPAddress = [], Device_Description = None,
     Device_MonitoringEnabled = None, Device_SNMPEnabled = None, Device_SNMPVersion = None,
     Device_SNMPPort = None, Device_SNMPv3SecurityLevel = None, Device_SNMPv3Username = None,
     Device_SNMPv3AuthProtocol = None, Device_SNMPv3AuthPassword = None,
     Device_SNMPv3PrivProtocol = None, Device_SNMPv3PrivPassword = None,
     Device_CheckIntervalSeconds = None, Device_InsertedAt = []\<rparr>"

definition zero_APIError :: APIError where
  "zero_APIError = \<lparr>APIError_Error = [], APIError_Errors = []\<rparr>"

subsection \<open>json.Marshal on the client's data\<close>

text \<open>
  A struct is written as an object, its fields in the order of the declaration under the
  key of the \<^verbatim>\<open>json\<close> tag. With \<^verbatim>\<open>omitempty\<close> an empty string and a nil pointer are left out.
\<close>

definition omitempty_string :: "string \<Rightarrow> string \<Rightarrow> (string \<times> json) list" where
  "omitempty_string k s = (if s = [] then [] else [(k, JString s)])"

definition omitempty_ptr :: "string \<Rightarrow> ('a \<Rightarrow> json) \<Rightarrow> 'a option \<Rightarrow> (string \<times> json) list" where
  "omitempty_ptr k f p = (case p of None \<Rightarrow> [] | Some x \<Rightarrow> [(k, f x)])"

definition JInt :: "64 word \<Rightarrow> json" where
  "JInt n = JNumber (sint n)"

definition Marshal_Site :: "Site \<Rightarrow> json" where
  "Marshal_Site s = JObject (
     omitempty_string ''id'' (Site_ID s) @
     [(''name'', JString (Site_Name s))] @
     omitempty_ptr ''location'' JString (Site_Location s) @
     omitempty_ptr ''snmp_community'' JString (Site_SNMPCommunity s) @
     omitempty_string ''inserted_at'' (Site_InsertedAt s))"

definition Marshal_Device :: "Device \<Rightarrow> json" where
  "Marshal_Device d = JObject (
     omitempty_string ''id'' (Device_ID d) @
     omitempty_ptr ''site_id'' JString (Device_SiteID d) @
     omitempty_ptr ''organization_id'' JString (Device_OrganizationID d) @
     omitempty_ptr ''name'' JString (Device_Name d) @
     [(''ip_address'', JString (Device_IPAddress d))] @
     omitempty_ptr ''description'' JString (Device_Description d) @
     omitempty_ptr ''monitoring_enabled'' JBool (Device_MonitoringEnabled d) @
     omitempty_ptr ''snmp_enabled'' JBool (Device_SNMPEnabled d) @
     omitempty_ptr ''snmp_version'' JString (Device_SNMPVersion d) @
     omitempty_ptr ''snmp_port'' JInt (Device_SNMPPort d) @
     omitempty_ptr ''snmpv3_security_level'' JString (Device_SNMPv3SecurityLevel d) @
     omitempty_ptr ''snmpv3_username'' JString (Device_SNMPv3Username d) @
     omitempty_ptr ''snmpv3_auth_protocol'' JString (Device_SNMPv3AuthProtocol d) @
     omitempty_ptr ''snmpv3_auth_password'' JString (Device_SNMPv3AuthPassword d) @
     omitempty_ptr ''snmpv3_priv_protocol'' JString (Device_SNMPv3PrivProtocol d) @
     omitempty_ptr ''snmpv3_priv_password'' JString (Device_SNMPv3PrivPassword d) @
     omitempty_ptr ''check_interval_seconds'' JInt (Device_CheckIntervalSeconds d) @
     omitempty_string ''inserted_at'' (Device_InsertedAt d))"

text \<open>
  The \<^verbatim>\<open>body interface{}\<close> argument of \<^verbatim>\<open>doRequest\<close>: the client only ever passes a
  \<^verbatim>\<open>map[string]Site\<close> or a \<^verbatim>\<open>map[string]Device\<close> (or nil, which is \<open>None\<close> at the call).
  A map is written as an object of its entries (sorted by key; the client's maps have one).
\<close>

datatype body = SiteMap "(string \<times> Site) list" | DeviceMap "(string \<times> Device) list"

fun Marshal :: "body \<Rightarrow> json" where
  "Marshal (SiteMap m) = JObject (map (\<lambda>(k, s). (k, Marshal_Site s)) m)"
| "Marshal (DeviceMap m) = JObject (map (\<lambda>(k, d). (k, Marshal_Device d)) m)"

subsection \<open>json.Unmarshal into the client's data\<close>

text \<open>
  The decoder walks the members of an object in order. A key selects the field whose tag
  equals it up to the case of ASCII letters (the two non-ASCII letters that the library
  also folds onto \<^verbatim>\<open>k\<close> and \<^verbatim>\<open>s\<close> are left out); a key that selects no field is skipped
  with its value. \<^verbatim>\<open>null\<close> sets a pointer to nil and leaves a string as it is. A value of
  the wrong JSON type makes the call return an error; every caller in the client drops the
  result then, so the decoders below stop at the first such value. At top level \<^verbatim>\<open>null\<close>
  decodes to the untouched zero value, and anything but an object or \<^verbatim>\<open>null\<close> is an error.
\<close>

definition upper :: "char \<Rightarrow> char" where
  "upper c = (case map_of (zip ''abcdefghijklmnopqrstuvwxyz'' ''ABCDEFGHIJKLMNOPQRSTUVWXYZ'') c of
                None \<Rightarrow> c | Some u \<Rightarrow> u)"

definition foldName :: "string \<Rightarrow> string" where
  "foldName k = map upper k"

fun into_string :: "json \<Rightarrow> string \<Rightarrow> string option" where
  "into_string (JString s) old = Some s"
| "into_string JNull old = Some old"
| "into_string _ old = None"

fun into_string_ptr :: "json \<Rightarrow> string option option" where
  "into_string_ptr (JString s) = Some (Some s)"
| "into_string_ptr JNull = Some None"
| "into_string_ptr _ = None"

fun into_bool_ptr :: "json \<Rightarrow> bool option option" where
  "into_bool_ptr (JBool b) = Some (Some b)"
| "into_bool_ptr JNull = Some None"
| "into_bool_ptr _ = None"

fun into_int_ptr :: "json \<Rightarrow> 64 word option option" where
  "into_int_ptr (JNumber i) =
     (if - (2 ^ 63) \<le> i \<and> i < 2 ^ 63 then Some (Some (word_of_int i)) else None)"
| "into_int_ptr JNull = Some None"
| "into_int_ptr _ = None"

definition Site_member :: "string \<Rightarrow> json \<Rightarrow> Site \<Rightarrow> Site option" where
  "Site_member k v s = (let f = foldName k in
     if f = ''ID'' then map_option (\<lambda>x. s\<lparr>Site_ID := x\<rparr>) (into_string v (Site_ID s))
     else if f = ''NAME'' then map_option (\<lambda>x. s\<lparr>Site_Name := x\<rparr>) (into_string v (Site_Name s))
     else if f = ''LOCATION'' then map_option (\<lambda>x. s\<lparr>Site_Location := x\<rparr>) (into_string_ptr v)
     else if f = ''SNMP_COMMUNITY''
       then map_option (\<lambda>x. s\<lparr>Site_SNMPCommunity := x\<rparr>) (into_string_ptr v)
     else if f = ''INSERTED_AT''
       then map_option (\<lambda>x. s\<lparr>Site_InsertedAt := x\<rparr>) (into_string v (Site_InsertedAt s))
     else Some s)"

definition Device_member :: "string \<Rightarrow> json \<Rightarrow> Device \<Rightarrow> Device option" where
  "Device_member k v d = (let f = foldName k in
     if f = ''ID'' then map_option (\<lambda>x. d\<lparr>Device_ID := x\<rparr>) (into_string v (Device_ID d))
     else if f = ''SITE_ID'' then map_option (\<lambda>x. d\<lparr>Device_SiteID := x\<rparr>) (into_string_ptr v)
     else if f = ''ORGANIZATION_ID''
       then map_option (\<lambda>x. d\<lparr>Device_OrganizationID := x\<rparr>) (into_string_ptr v)
     else if f = ''NAME'' then map_option (\<lambda>x. d\<lparr>Device_Name := x\<rparr>) (into_string_ptr v)
     else if f = ''IP_ADDRESS''
       then map_option (\<lambda>x. d\<lparr>Device_IPAddress := x\<rparr>) (into_string v (Device_IPAddress d))
     else if f = ''DESCRIPTION''
       then map_option (\<lambda>x. d\<lparr>Device_Description := x\<rparr>) (into_string_ptr v)
     else if f = ''MONITORING_ENABLED''
       then map_option (\<lambda>x. d\<lparr>Device_MonitoringEnabled := x\<rparr>) (into_bool_ptr v)
     else if f = ''SNMP_ENABLED''
       then map_option (\<lambda>x. d\<lparr>Device_SNMPEnabled := x\<rparr>) (into_bool_ptr v)
     else if f = ''SNMP_VERSION''
       then map_option (\<lambda>x. d\<lparr>Device_SNMPVersion := x\<rparr>) (into_string_ptr v)
     else if f = ''SNMP_PORT'' then map_option (\<lambda>x. d\<lparr>Device_SNMPPort := x\<rparr>) (into_int_ptr v)
     else if f = ''SNMPV3_SECURITY_LEVEL''
       then map_option (\<lambda>x. d\<lparr>Device_SNMPv3SecurityLevel := x\<rparr>) (into_string_ptr v)
     else if f = ''SNMPV3_USERNAME''
       then map_option (\<lambda>x. d\<lparr>Device_SNMPv3Username := x\<rparr>) (into_string_ptr v)
     else if f = ''SNMPV3_AUTH_PROTOCOL''
       then map_option (\<lambda>x. d\<lparr>Device_SNMPv3AuthProtocol := x\<rparr>) (into_string_ptr v)
     else if f = ''SNMPV3_AUTH_PASSWORD''
       then map_option (\<lambda>x. d\<lparr>Device_SNMPv3AuthPassword := x\<rparr>) (into_string_ptr v)
     else if f = ''SNMPV3_PRIV_PROTOCOL''
       then map_option (\<lambda>x. d\<lparr>Device_SNMPv3PrivProtocol := x\<rparr>) (into_string_ptr v)
     else if f = ''SNMPV3_PRIV_PASSWORD''
       then map_option (\<lambda>x. d\<lparr>Device_SNMPv3PrivPassword := x\<rparr>) (into_string_ptr v)
     else if f = ''CHECK_INTERVAL_SECONDS''
       then map_option (\<lambda>x. d\<lparr>Device_CheckIntervalSeconds := x\<rparr>) (into_int_ptr v)
     else if f = ''INSERTED_AT''
       then map_option (\<lambda>x. d\<lparr>Device_InsertedAt := x\<rparr>) (into_string v (Device_InsertedAt d))
     else Some d)"

fun members :: "(string \<Rightarrow> json \<Rightarrow> 'a \<Rightarrow> 'a option) \<Rightarrow> (string \<times> json) list \<Rightarrow> 'a \<Rightarrow> 'a option" where
  "members f [] x = Some x"
| "members f ((k, v) # kvs) x = (case f k v x of None \<Rightarrow> None | Some y \<Rightarrow> members f kvs y)"

fun object_into :: "(string \<Rightarrow> json \<Rightarrow> 'a \<Rightarrow> 'a option) \<Rightarrow> json \<Rightarrow> 'a \<Rightarrow> 'a option" where
  "object_into f (JObject kvs) x = members f kvs x"
| "object_into f JNull x = Some x"
| "object_into f _ x = None"

fun Unmarshal_Site :: "payload \<Rightarrow> Site option" where
  "Unmarshal_Site (Valid j) = object_into Site_member j zero_Site"
| "Unmarshal_Site (Invalid t) = None"

fun Unmarshal_Device :: "payload \<Rightarrow> Device option" where
  "Unmarshal_Device (Valid j) = object_into Device_member j zero_Device"
| "Unmarshal_Device (Invalid t) = None"

text \<open>
  \<^verbatim>\<open>APIError.Errors\<close> is a \<^verbatim>\<open>map[string]string\<close>: an object adds its members to the map (a
  later key replaces an earlier one), \<^verbatim>\<open>null\<close> makes it nil, and a member that is
  \<^verbatim>\<open>null\<close> is stored as the empty string.
\<close>

fun map_entry :: "string \<Rightarrow> json \<Rightarrow> (string \<times> string) list \<Rightarrow> (string \<times> string) list option" where
  "map_entry k (JString s) m = Some ((k, s) # filter (\<lambda>(k', _). k' \<noteq> k) m)"
| "map_entry k JNull m = Some ((k, []) # filter (\<lambda>(k', _). k' \<noteq> k) m)"
| "map_entry k _ m = None"

fun into_string_map :: "json \<Rightarrow> (string \<times> string) list \<Rightarrow> (string \<times> string) list option" where
  "into_string_map (JObject kvs) m = members map_entry kvs m"
| "into_string_map JNull m = Some []"
| "into_string_map _ m = None"

definition APIError_member :: "string \<Rightarrow> json \<Rightarrow> APIError \<Rightarrow> APIError option" where
  "APIError_member k v a = (let f = foldName k in
     if f = ''ERROR''
       then map_option (\<lambda>x. a\<lparr>APIError_Error := x\<rparr>) (into_string v (APIError_Error a))
     else if f = ''ERRORS''
       then map_option (\<lambda>x. a\<lparr>APIError_Errors := x\<rparr>) (into_string_map v (APIError_Errors a))
     else Some a)"

fun Unmarshal_APIError :: "payload \<Rightarrow> APIError option" where
  "Unmarshal_APIError (Valid j) = object_into APIError_member j zero_APIError"
| "Unmarshal_APIError (Invalid t) = None"

subsection \<open>Errors and the HTTP exchange\<close>

text \<open>
  One constructor per error the client makes. \<open>ErrNotFound\<close> is the package's sentinel;
  the others are the \<^verbatim>\<open>fmt.Errorf\<close> values, holding what their text is formatted from.
  None of them wraps \<open>ErrNotFound\<close>, so \<^verbatim>\<open>errors.Is(err, ErrNotFound)\<close> is equality.
\<close>

datatype error =
    ErrNotFound
  | CreateRequestFailed string
  | RequestFailed string
  | ReadBodyFailed string
  | APIErrorMessage nat string
  | APIValidationError nat "(string \<times> string) list"
  | APIErrorBody nat payload
  | UnmarshalFailed payload

definition Is_ErrNotFound :: "error \<Rightarrow> bool" where
  "Is_ErrNotFound err = (err = ErrNotFound)"

record request =
  Method :: string
  URL :: string
  Header :: "(string \<times> string) list"
  Body :: "json option"

text \<open>
  What \<^verbatim>\<open>http.NewRequest\<close>, \<^verbatim>\<open>c.HTTPClient.Do\<close> and \<^verbatim>\<open>io.ReadAll\<close> come back with for a
  request: one of their three failures (with the library's message), or a status code and
  the bytes of the body.
\<close>

datatype outcome =
    NewRequestError string
  | DoError string
  | ReadAllError string
  | Response nat payload

text \<open>
  The remote system is a state of type \<open>'w\<close> that the exchange reads and changes. The
  client's \<^verbatim>\<open>HTTPClient\<close> field is that exchange. \<open>net\<close> is the remote state together with
  the requests the client has made so far, oldest first; a request is recorded also when
  the exchange fails.
\<close>

record 'w Client =
  BaseURL :: string
  Token :: string
  HTTPClient :: "request \<Rightarrow> 'w \<Rightarrow> outcome \<times> 'w"

record 'w net =
  remote :: 'w
  sent :: "request list"

text \<open>The request that \<^verbatim>\<open>doRequest\<close> builds: the marshalled body and the three headers.\<close>

definition newRequest :: "'w Client \<Rightarrow> string \<Rightarrow> string \<Rightarrow> body option \<Rightarrow> request" where
  "newRequest c method path body =
     \<lparr>Method = method, URL = BaseURL c @ path,
      Header = [(''Authorization'', ''Bearer '' @ Token c),
                (''Content-Type'', ''application/json''),
                (''Accept'', ''application/json'')],
      Body = map_option Marshal body\<rparr>"

text \<open>The error for a status of 400 or more other than 404 (lines 351 to 360).\<close>

definition statusError :: "nat \<Rightarrow> payload \<Rightarrow> error" where
  "statusError status respBody = (case Unmarshal_APIError respBody of
       Some apiErr \<Rightarrow>
         if APIError_Error apiErr \<noteq> [] then APIErrorMessage status (APIError_Error apiErr)
         else if length (APIError_Errors apiErr) > 0
           then APIValidationError status (APIError_Errors apiErr)
         else APIErrorBody status respBody
     | None \<Rightarrow> APIErrorBody status respBody)"

definition doRequest ::
  "'w Client \<Rightarrow> string \<Rightarrow> string \<Rightarrow> body option \<Rightarrow> 'w net \<Rightarrow> (error + payload) \<times> 'w net" where
  "doRequest c method path body n =
     (let req = newRequest c method path body;
          (out, w) = HTTPClient c req (remote n);
          n' = \<lparr>remote = w, sent = sent n @ [req]\<rparr>
      in case out of
           NewRequestError e \<Rightarrow> (Inl (CreateRequestFailed e), n')
         | DoError e \<Rightarrow> (Inl (RequestFailed e), n')
         | ReadAllError e \<Rightarrow> (Inl (ReadBodyFailed e), n')
         | Response status respBody \<Rightarrow>
             if status \<ge> 400 then
               if status = 404 then (Inl ErrNotFound, n')
               else (Inl (statusError status respBody), n')
             else (Inr respBody, n'))"

subsection \<open>The client's calls (client.go)\<close>

definition site_result :: "(error + payload) \<times> 'w net \<Rightarrow> (error + Site) \<times> 'w net" where
  "site_result r = (case r of
       (Inl err, n) \<Rightarrow> (Inl err, n)
     | (Inr respBody, n) \<Rightarrow> (case Unmarshal_Site respBody of
           None \<Rightarrow> (Inl (UnmarshalFailed respBody), n)
         | Some result \<Rightarrow> (Inr result, n)))"

definition device_result :: "(error + payload) \<times> 'w net \<Rightarrow> (error + Device) \<times> 'w net" where
  "device_result r = (case r of
       (Inl err, n) \<Rightarrow> (Inl err, n)
     | (Inr respBody, n) \<Rightarrow> (case Unmarshal_Device respBody of
           None \<Rightarrow> (Inl (UnmarshalFailed respBody), n)
         | Some result \<Rightarrow> (Inr result, n)))"

definition CreateSite :: "'w Client \<Rightarrow> Site \<Rightarrow> 'w net \<Rightarrow> (error + Site) \<times> 'w net" where
  "CreateSite c site n =
     site_result (doRequest c ''POST'' ''/api/v1/sites'' (Some (SiteMap [(''site'', site)])) n)"

definition GetSite :: "'w Client \<Rightarrow> string \<Rightarrow> 'w net \<Rightarrow> (error + Site) \<times> 'w net" where
  "GetSite c ident n = site_result (doRequest c ''GET'' (''/api/v1/sites/'' @ ident) None n)"

definition UpdateSite :: "'w Client \<Rightarrow> string \<Rightarrow> Site \<Rightarrow> 'w net \<Rightarrow> (error + Site) \<times> 'w net" where
  "UpdateSite c ident site n =
     site_result (doRequest c ''PATCH'' (''/api/v1/sites/'' @ ident) (Some (SiteMap [(''site'', site)])) n)"

definition DeleteSite :: "'w Client \<Rightarrow> string \<Rightarrow> 'w net \<Rightarrow> error option \<times> 'w net" where
  "DeleteSite c ident n = (case doRequest c ''DELETE'' (''/api/v1/sites/'' @ ident) None n of
       (Inl err, n') \<Rightarrow> (Some err, n')
     | (Inr respBody, n') \<Rightarrow> (None, n'))"

definition CreateDevice :: "'w Client \<Rightarrow> Device \<Rightarrow> 'w net \<Rightarrow> (error + Device) \<times> 'w net" where
  "CreateDevice c device n =
     device_result (doRequest c ''POST'' ''/api/v1/devices'' (Some (DeviceMap [(''device'', device)])) n)"

definition GetDevice :: "'w Client \<Rightarrow> string \<Rightarrow> 'w net \<Rightarrow> (error + Device) \<times> 'w net" where
  "GetDevice c ident n = device_result (doRequest c ''GET'' (''/api/v1/devices/'' @ ident) None n)"

definition UpdateDevice :: "'w Client \<Rightarrow> string \<Rightarrow> Device \<Rightarrow> 'w net \<Rightarrow> (error + Device) \<times> 'w net" where
  "UpdateDevice c ident device n =
     device_result
       (doRequest c ''PATCH'' (''/api/v1/devices/'' @ ident) (Some (DeviceMap [(''device'', device)])) n)"

definition DeleteDevice :: "'w Client \<Rightarrow> string \<Rightarrow> 'w net \<Rightarrow> error option \<times> 'w net" where
  "DeleteDevice c ident n = (case doRequest c ''DELETE'' (''/api/v1/devices/'' @ ident) None n of
       (Inl err, n') \<Rightarrow> (Some err, n')
     | (Inr respBody, n') \<Rightarrow> (None, n'))"

subsection \<open>Values, state and diagnostics of the plugin framework\<close>

text \<open>
  \<^verbatim>\<open>types.String\<close>, \<^verbatim>\<open>types.Bool\<close> and \<^verbatim>\<open>types.Int64\<close> are null, unknown or a value. The value
  accessors return the zero value unless the value is known.
\<close>

datatype types_String = StringNull | StringUnknown | StringValue string
datatype types_Bool = BoolNull | BoolUnknown | BoolValue bool
datatype types_Int64 = Int64Null | Int64Unknown | Int64Value "64 word"

fun String_IsNull :: "types_String \<Rightarrow> bool" where
  "String_IsNull StringNull = True"
| "String_IsNull _ = False"

fun Bool_IsNull :: "types_Bool \<Rightarrow> bool" where
  "Bool_IsNull BoolNull = True"
| "Bool_IsNull _ = False"

fun Int64_IsNull :: "types_Int64 \<Rightarrow> bool" where
  "Int64_IsNull Int64Null = True"
| "Int64_IsNull _ = False"

fun ValueString :: "types_String \<Rightarrow> string" where
  "ValueString (StringValue s) = s"
| "ValueString _ = []"

fun ValueBool :: "types_Bool \<Rightarrow> bool" where
  "ValueBool (BoolValue b) = b"
| "ValueBool _ = False"

fun ValueInt64 :: "types_Int64 \<Rightarrow> 64 word" where
  "ValueInt64 (Int64Value i) = i"
| "ValueInt64 _ = 0"

datatype diagnostic = ErrorDiagnostic string error | WarningDiagnostic string string

fun HasError :: "diagnostic list \<Rightarrow> bool" where
  "HasError [] = False"
| "HasError (ErrorDiagnostic s e # ds) = True"
| "HasError (WarningDiagnostic s t # ds) = HasError ds"

text \<open>
  The response of a resource method: \<open>State\<close> is the resource's stored state (\<open>None\<close> when
  there is none, which is what \<^verbatim>\<open>RemoveResource\<close> leaves), \<open>Diagnostics\<close> what the method
  reported. \<^verbatim>\<open>resp.State.Set(ctx, &data)\<close> stores \<open>Some data\<close>. The detail of an error
  diagnostic is \<^verbatim>\<open>err.Error()\<close>, kept as the error.
\<close>

record 'm response =
  State :: "'m option"
  Diagnostics :: "diagnostic list"

definition AddError :: "string \<Rightarrow> error \<Rightarrow> 'm response \<Rightarrow> 'm response" where
  "AddError summary err resp = resp\<lparr>Diagnostics := Diagnostics resp @ [ErrorDiagnostic summary err]\<rparr>"

subsection \<open>The resource data models\<close>

record SiteResourceModel =
  SiteModel_ID :: types_String
  SiteModel_Name :: types_String
  SiteModel_Location :: types_String
  SiteModel_SNMPCommunity :: types_String
  SiteModel_InsertedAt :: types_String

record DeviceResourceModel =
  DeviceModel_ID :: types_String
  DeviceModel_SiteID :: types_String
  DeviceModel_OrganizationID :: types_String
  DeviceModel_Name :: types_String
  DeviceModel_IPAddress :: types_String
  DeviceModel_Description :: types_String
  DeviceModel_MonitoringEnabled :: types_Bool
  DeviceModel_SNMPEnabled :: types_Bool
  DeviceModel_SNMPVersion :: types_String
  DeviceModel_SNMPPort :: types_Int64
  DeviceModel_SNMPv3SecurityLevel :: types_String
  DeviceModel_SNMPv3Username :: types_String
  DeviceModel_SNMPv3AuthProtocol :: types_String
  DeviceModel_SNMPv3AuthPassword :: types_String
  DeviceModel_SNMPv3PrivProtocol :: types_String
  DeviceModel_SNMPv3PrivPassword :: types_String
  DeviceModel_InsertedAt :: types_String

text \<open>
  The three shapes the methods are written in. From the data to the client's struct:
  \<^verbatim>\<open>if !data.X.IsNull() { v := data.X.ValueString(); device.X = &v }\<close>.
\<close>

definition String_ptr :: "types_String \<Rightarrow> string option" where
  "String_ptr x = (if \<not> String_IsNull x then Some (ValueString x) else None)"

definition Bool_ptr :: "types_Bool \<Rightarrow> bool option" where
  "Bool_ptr x = (if \<not> Bool_IsNull x then Some (ValueBool x) else None)"

definition Int64_ptr :: "types_Int64 \<Rightarrow> 64 word option" where
  "Int64_ptr x = (if \<not> Int64_IsNull x then Some (ValueInt64 x) else None)"

text \<open>
  From the client's struct to the data, with an else branch:
  \<^verbatim>\<open>if p != nil { data.X = types.StringValue(*p) } else { data.X = types.StringNull() }\<close>.
\<close>

definition String_or_null :: "string option \<Rightarrow> types_String" where
  "String_or_null p = (case p of Some s \<Rightarrow> StringValue s | None \<Rightarrow> StringNull)"

text \<open>And without one: \<^verbatim>\<open>if p != nil { data.X = types.StringValue(*p) }\<close>.\<close>

definition String_if_set :: "string option \<Rightarrow> types_String \<Rightarrow> types_String" where
  "String_if_set p old = (case p of Some s \<Rightarrow> StringValue s | None \<Rightarrow> old)"

definition Bool_if_set :: "bool option \<Rightarrow> types_Bool \<Rightarrow> types_Bool" where
  "Bool_if_set p old = (case p of Some b \<Rightarrow> BoolValue b | None \<Rightarrow> old)"

definition Int64_if_set :: "64 word option \<Rightarrow> types_Int64 \<Rightarrow> types_Int64" where
  "Int64_if_set p old = (case p of Some i \<Rightarrow> Int64Value i | None \<Rightarrow> old)"

subsection \<open>DeviceResource (device_resource.go)\<close>

text \<open>
  The payload that \<^verbatim>\<open>Create\<close> (lines 183 to 256) and \<^verbatim>\<open>Update\<close> (lines 403 to 476) build
  from the planned data, by the same statements.
\<close>

definition Device_of_data :: "DeviceResourceModel \<Rightarrow> Device" where
  "Device_of_data data = zero_Device\<lparr>
     Device_IPAddress := ValueString (DeviceModel_IPAddress data),
     Device_SiteID := String_ptr (DeviceModel_SiteID data),
     Device_OrganizationID := String_ptr (DeviceModel_OrganizationID data),
     Device_Name := String_ptr (DeviceModel_Name data),
     Device_Description := String_ptr (DeviceModel_Description data),
     Device_MonitoringEnabled := Bool_ptr (DeviceModel_MonitoringEnabled data),
     Device_SNMPEnabled := Bool_ptr (DeviceModel_SNMPEnabled data),
     Device_SNMPVersion := String_ptr (DeviceModel_SNMPVersion data),
     Device_SNMPPort := Int64_ptr (DeviceModel_SNMPPort data),
     Device_SNMPv3SecurityLevel := String_ptr (DeviceModel_SNMPv3SecurityLevel data),
     Device_SNMPv3Username := String_ptr (DeviceModel_SNMPv3Username data),
     Device_SNMPv3AuthProtocol := String_ptr (DeviceModel_SNMPv3AuthProtocol data),
     Device_SNMPv3AuthPassword := String_ptr (DeviceModel_SNMPv3AuthPassword data),
     Device_SNMPv3PrivProtocol := String_ptr (DeviceModel_SNMPv3PrivProtocol data),
     Device_SNMPv3PrivPassword := String_ptr (DeviceModel_SNMPv3PrivPassword data)\<rparr>"

text \<open>What \<^verbatim>\<open>Create\<close> writes into the data after a successful call (lines 264 to 288).\<close>

definition Create_data :: "DeviceResourceModel \<Rightarrow> Device \<Rightarrow> DeviceResourceModel" where
  "Create_data data created = data\<lparr>
     DeviceModel_ID := StringValue (Device_ID created),
     DeviceModel_InsertedAt := StringValue (Device_InsertedAt created),
     DeviceModel_SiteID := String_or_null (Device_SiteID created),
     DeviceModel_OrganizationID := String_or_null (Device_OrganizationID created),
     DeviceModel_Name := String_if_set (Device_Name created) (DeviceModel_Name data),
     DeviceModel_MonitoringEnabled :=
       Bool_if_set (Device_MonitoringEnabled created) (DeviceModel_MonitoringEnabled data),
     DeviceModel_SNMPEnabled :=
       Bool_if_set (Device_SNMPEnabled created) (DeviceModel_SNMPEnabled data)\<rparr>"

text \<open>
  Every method starts by reading the request's plan or state into \<open>data\<close> and returns at
  once if the response holds an error diagnostic; the request's data is typed by the
  schema here, so this read adds no diagnostic. \<open>r\<close> is \<^verbatim>\<open>r.client\<close>.
\<close>

definition DeviceResource_Create ::
  "'w Client \<Rightarrow> DeviceResourceModel \<Rightarrow> DeviceResourceModel response \<Rightarrow> 'w net
     \<Rightarrow> DeviceResourceModel response \<times> 'w net" where
  "DeviceResource_Create r data resp n =
     (if HasError (Diagnostics resp) then (resp, n)
      else case CreateDevice r (Device_of_data data) n of
          (Inl err, n') \<Rightarrow> (AddError ''Failed to create device'' err resp, n')
        | (Inr created, n') \<Rightarrow> (resp\<lparr>State := Some (Create_data data created)\<rparr>, n'))"

text \<open>What \<^verbatim>\<open>Read\<close> writes into the data (lines 312 to 390).\<close>

definition Read_data :: "DeviceResourceModel \<Rightarrow> Device \<Rightarrow> DeviceResourceModel" where
  "Read_data data device = data\<lparr>
     DeviceModel_SiteID := String_or_null (Device_SiteID device),
     DeviceModel_OrganizationID := String_or_null (Device_OrganizationID device),
     DeviceModel_IPAddress := StringValue (Device_IPAddress device),
     DeviceModel_Name := String_or_null (Device_Name device),
     DeviceModel_InsertedAt := StringValue (Device_InsertedAt device),
     DeviceModel_Description := String_or_null (Device_Description device),
     DeviceModel_MonitoringEnabled :=
       Bool_if_set (Device_MonitoringEnabled device) (DeviceModel_MonitoringEnabled data),
     DeviceModel_SNMPEnabled :=
       Bool_if_set (Device_SNMPEnabled device) (DeviceModel_SNMPEnabled data),
     DeviceModel_SNMPVersion :=
       String_if_set (Device_SNMPVersion device) (DeviceModel_SNMPVersion data),
     DeviceModel_SNMPPort := Int64_if_set (Device_SNMPPort device) (DeviceModel_SNMPPort data),
     DeviceModel_SNMPv3SecurityLevel := String_or_null (Device_SNMPv3SecurityLevel device),
     DeviceModel_SNMPv3Username := String_or_null (Device_SNMPv3Username device),
     DeviceModel_SNMPv3AuthProtocol := String_or_null (Device_SNMPv3AuthProtocol device),
     DeviceModel_SNMPv3AuthPassword := String_or_null (Device_SNMPv3AuthPassword device),
     DeviceModel_SNMPv3PrivProtocol := String_or_null (Device_SNMPv3PrivProtocol device),
     DeviceModel_SNMPv3PrivPassword := String_or_null (Device_SNMPv3PrivPassword device)\<rparr>"

definition DeviceResource_Read ::
  "'w Client \<Rightarrow> DeviceResourceModel \<Rightarrow> DeviceResourceModel response \<Rightarrow> 'w net
     \<Rightarrow> DeviceResourceModel response \<times> 'w net" where
  "DeviceResource_Read r data resp n =
     (if HasError (Diagnostics resp) then (resp, n)
      else case GetDevice r (ValueString (DeviceModel_ID data)) n of
          (Inl err, n') \<Rightarrow>
            if Is_ErrNotFound err then (resp\<lparr>State := None\<rparr>, n')
            else (AddError ''Failed to read device'' err resp, n')
        | (Inr device, n') \<Rightarrow> (resp\<lparr>State := Some (Read_data data device)\<rparr>, n'))"

text \<open>
  What \<^verbatim>\<open>Update\<close> writes after the create that follows a 404 (lines 487 to 520), and after
  a successful update (lines 528 to 596).
\<close>

definition Recreate_data :: "DeviceResourceModel \<Rightarrow> Device \<Rightarrow> DeviceResourceModel" where
  "Recreate_data data created = data\<lparr>
     DeviceModel_ID := StringValue (Device_ID created),
     DeviceModel_InsertedAt := StringValue (Device_InsertedAt created),
     DeviceModel_IPAddress := StringValue (Device_IPAddress created),
     DeviceModel_SiteID := String_or_null (Device_SiteID created),
     DeviceModel_OrganizationID := String_or_null (Device_OrganizationID created),
     DeviceModel_Name := String_if_set (Device_Name created) (DeviceModel_Name data),
     DeviceModel_Description :=
       String_if_set (Device_Description created) (DeviceModel_Description data),
     DeviceModel_MonitoringEnabled :=
       Bool_if_set (Device_MonitoringEnabled created) (DeviceModel_MonitoringEnabled data),
     DeviceModel_SNMPEnabled :=
       Bool_if_set (Device_SNMPEnabled created) (DeviceModel_SNMPEnabled data),
     DeviceModel_SNMPVersion :=
       String_if_set (Device_SNMPVersion created) (DeviceModel_SNMPVersion data),
     DeviceModel_SNMPPort := Int64_if_set (Device_SNMPPort created) (DeviceModel_SNMPPort data)\<rparr>"

definition Update_data :: "DeviceResourceModel \<Rightarrow> Device \<Rightarrow> DeviceResourceModel" where
  "Update_data data updated = data\<lparr>
     DeviceModel_IPAddress := StringValue (Device_IPAddress updated),
     DeviceModel_SiteID := String_or_null (Device_SiteID updated),
     DeviceModel_OrganizationID := String_or_null (Device_OrganizationID updated),
     DeviceModel_Name := String_if_set (Device_Name updated) (DeviceModel_Name data),
     DeviceModel_Description :=
       String_if_set (Device_Description updated) (DeviceModel_Description data),
     DeviceModel_MonitoringEnabled :=
       Bool_if_set (Device_MonitoringEnabled updated) (DeviceModel_MonitoringEnabled data),
     DeviceModel_SNMPEnabled :=
       Bool_if_set (Device_SNMPEnabled updated) (DeviceModel_SNMPEnabled data),
     DeviceModel_SNMPVersion :=
       String_if_set (Device_SNMPVersion updated) (DeviceModel_SNMPVersion data),
     DeviceModel_SNMPPort := Int64_if_set (Device_SNMPPort updated) (DeviceModel_SNMPPort data),
     DeviceModel_SNMPv3SecurityLevel := String_or_null (Device_SNMPv3SecurityLevel updated),
     DeviceModel_SNMPv3Username := String_or_null (Device_SNMPv3Username updated),
     DeviceModel_SNMPv3AuthProtocol := String_or_null (Device_SNMPv3AuthProtocol updated),
     DeviceModel_SNMPv3AuthPassword := String_or_null (Device_SNMPv3AuthPassword updated),
     DeviceModel_SNMPv3PrivProtocol := String_or_null (Device_SNMPv3PrivProtocol updated),
     DeviceModel_SNMPv3PrivPassword := String_or_null (Device_SNMPv3PrivPassword updated)\<rparr>"

definition DeviceResource_Update ::
  "'w Client \<Rightarrow> DeviceResourceModel \<Rightarrow> DeviceResourceModel response \<Rightarrow> 'w net
     \<Rightarrow> DeviceResourceModel response \<times> 'w net" where
  "DeviceResource_Update r data resp n =
     (if HasError (Diagnostics resp) then (resp, n)
      else let device = Device_of_data data in
        case UpdateDevice r (ValueString (DeviceModel_ID data)) device n of
          (Inl err, n') \<Rightarrow>
            if Is_ErrNotFound err then
              (case CreateDevice r device n' of
                 (Inl createErr, n'') \<Rightarrow>
                   (AddError ''Failed to create device (after 404 on update)'' createErr resp, n'')
               | (Inr created, n'') \<Rightarrow> (resp\<lparr>State := Some (Recreate_data data created)\<rparr>, n''))
            else (AddError ''Failed to update device'' err resp, n')
        | (Inr updated, n') \<Rightarrow> (resp\<lparr>State := Some (Update_data data updated)\<rparr>, n'))"

definition DeviceResource_Delete ::
  "'w Client \<Rightarrow> DeviceResourceModel \<Rightarrow> DeviceResourceModel response \<Rightarrow> 'w net
     \<Rightarrow> DeviceResourceModel response \<times> 'w net" where
  "DeviceResource_Delete r data resp n =
     (if HasError (Diagnostics resp) then (resp, n)
      else case DeleteDevice r (ValueString (DeviceModel_ID data)) n of
          (Some err, n') \<Rightarrow> (AddError ''Failed to delete device'' err resp, n')
        | (None, n') \<Rightarrow> (resp, n'))"

subsection \<open>SiteResource (site_resource.go)\<close>

definition Site_Read_data :: "SiteResourceModel \<Rightarrow> Site \<Rightarrow> SiteResourceModel" where
  "Site_Read_data data site = data\<lparr>
     SiteModel_Name := StringValue (Site_Name site),
     SiteModel_InsertedAt := StringValue (Site_InsertedAt site),
     SiteModel_Location := String_or_null (Site_Location site),
     SiteModel_SNMPCommunity := String_or_null (Site_SNMPCommunity site)\<rparr>"

definition SiteResource_Read ::
  "'w Client \<Rightarrow> SiteResourceModel \<Rightarrow> SiteResourceModel response \<Rightarrow> 'w net
     \<Rightarrow> SiteResourceModel response \<times> 'w net" where
  "SiteResource_Read r data resp n =
     (if HasError (Diagnostics resp) then (resp, n)
      else case GetSite r (ValueString (SiteModel_ID data)) n of
          (Inl err, n') \<Rightarrow>
            if Is_ErrNotFound err then (resp\<lparr>State := None\<rparr>, n')
            else (AddError ''Failed to read site'' err resp, n')
        | (Inr site, n') \<Rightarrow> (resp\<lparr>State := Some (Site_Read_data data site)\<rparr>, n'))"

definition SiteResource_Delete ::
  "'w Client \<Rightarrow> SiteResourceModel \<Rightarrow> SiteResourceModel response \<Rightarrow> 'w net
     \<Rightarrow> SiteResourceModel response \<times> 'w net" where
  "SiteResource_Delete r data resp n =
     (if HasError (Diagnostics resp) then (resp, n)
      else case DeleteSite r (ValueString (SiteModel_ID data)) n of
          (Some err, n') \<Rightarrow> (AddError ''Failed to delete site'' err resp, n')
        | (None, n') \<Rightarrow> (resp, n'))"

subsection \<open>The device schema (DeviceResource.Schema)\<close>

datatype AttributeKind = StringKind | BoolKind | Int64Kind
datatype Default = StaticBool bool | StaticString string | StaticInt64 "64 word"
datatype PlanModifier = UseStateForUnknown | RequiresReplace

record Attribute =
  Kind :: AttributeKind
  Required :: bool
  Optional :: bool
  Computed :: bool
  Sensitive :: bool
  Default :: "Default option"
  PlanModifiers :: "PlanModifier list"

text \<open>A struct literal leaves the fields it does not name at their zero values.\<close>

definition StringAttribute :: Attribute where
  "StringAttribute = \<lparr>Kind = StringKind, Required = False, Optional = False, Computed = False,
     Sensitive = False, Default = None, PlanModifiers = []\<rparr>"

definition BoolAttribute :: Attribute where
  "BoolAttribute = StringAttribute\<lparr>Kind := BoolKind\<rparr>"

definition Int64Attribute :: Attribute where
  "Int64Attribute = StringAttribute\<lparr>Kind := Int64Kind\<rparr>"

definition DeviceSchema :: "(string \<times> Attribute) list" where
  "DeviceSchema = [
     (''id'', StringAttribute\<lparr>Computed := True, PlanModifiers := [UseStateForUnknown]\<rparr>),
     (''site_id'', StringAttribute\<lparr>Optional := True, Computed := True,
        PlanModifiers := [RequiresReplace]\<rparr>),
     (''organization_id'', StringAttribute\<lparr>Optional := True, Computed := True,
        PlanModifiers := [RequiresReplace]\<rparr>),
     (''name'', StringAttribute\<lparr>Optional := True, Computed := True\<rparr>),
     (''ip_address'', StringAttribute\<lparr>Required := True\<rparr>),
     (''description'', StringAttribute\<lparr>Optional := True\<rparr>),
     (''monitoring_enabled'', BoolAttribute\<lparr>Optional := True, Computed := True,
        Default := Some (StaticBool True)\<rparr>),
     (''snmp_enabled'', BoolAttribute\<lparr>Optional := True, Computed := True,
        Default := Some (StaticBool True)\<rparr>),
     (''snmp_version'', StringAttribute\<lparr>Optional := True, Computed := True,
        Default := Some (StaticString ''2c'')\<rparr>),
     (''snmp_port'', Int64Attribute\<lparr>Optional := True, Computed := True,
        Default := Some (StaticInt64 161)\<rparr>),
     (''snmpv3_security_level'', StringAttribute\<lparr>Optional := True\<rparr>),
     (''snmpv3_username'', StringAttribute\<lparr>Optional := True\<rparr>),
     (''snmpv3_auth_protocol'', StringAttribute\<lparr>Optional := True\<rparr>),
     (''snmpv3_auth_password'', StringAttribute\<lparr>Optional := True, Sensitive := True\<rparr>),
     (''snmpv3_priv_protocol'', StringAttribute\<lparr>Optional := True\<rparr>),
     (''snmpv3_priv_password'', StringAttribute\<lparr>Optional := True, Sensitive := True\<rparr>),
     (''inserted_at'', StringAttribute\<lparr>Computed := True, PlanModifiers := [UseStateForUnknown]\<rparr>)]"

definition attribute :: "string \<Rightarrow> Attribute" where
  "attribute name = (case map_of DeviceSchema name of Some a \<Rightarrow> a | None \<Rightarrow> StringAttribute)"

subsection \<open>What the plugin framework does with the schema\<close>

text \<open>
  The schema only declares; the plugin framework (a library, not part of the repository)
  acts on the declarations before it calls a method of the resource. The three rules
  below are the framework's documented behaviour for the declarations the schema uses.
  A configuration is a \<open>DeviceResourceModel\<close> whose unset attributes are null; each
  attribute is found under its \<^verbatim>\<open>tfsdk\<close> tag.

  Validation. The schema declares no attribute validator and the resource has neither
  \<^verbatim>\<open>ConfigValidators\<close> nor \<^verbatim>\<open>ValidateConfig\<close>, so validating a configuration comes
  down to the two checks the framework makes on every attribute: a \<^verbatim>\<open>Required\<close> attribute
  must not be null ("Missing Configuration for Required Attribute"), and an attribute
  that is \<^verbatim>\<open>Computed\<close> and not \<^verbatim>\<open>Optional\<close> must be null ("Invalid Configuration for
  Read-Only Attribute"). The result lists the attributes in error.
\<close>

definition invalid :: "string \<Rightarrow> bool \<Rightarrow> string list" where
  "invalid name isnull =
     (if Required (attribute name) \<and> isnull then [name]
      else if Computed (attribute name) \<and> \<not> Optional (attribute name) \<and> \<not> isnull then [name]
      else [])"

definition ValidateConfig :: "DeviceResourceModel \<Rightarrow> string list" where
  "ValidateConfig config =
     invalid ''id'' (String_IsNull (DeviceModel_ID config)) @
     invalid ''site_id'' (String_IsNull (DeviceModel_SiteID config)) @
     invalid ''organization_id'' (String_IsNull (DeviceModel_OrganizationID config)) @
     invalid ''name'' (String_IsNull (DeviceModel_Name config)) @
     invalid ''ip_address'' (String_IsNull (DeviceModel_IPAddress config)) @
     invalid ''description'' (String_IsNull (DeviceModel_Description config)) @
     invalid ''monitoring_enabled'' (Bool_IsNull (DeviceModel_MonitoringEnabled config)) @
     invalid ''snmp_enabled'' (Bool_IsNull (DeviceModel_SNMPEnabled config)) @
     invalid ''snmp_version'' (String_IsNull (DeviceModel_SNMPVersion config)) @
     invalid ''snmp_port'' (Int64_IsNull (DeviceModel_SNMPPort config)) @
     invalid ''snmpv3_security_level'' (String_IsNull (DeviceModel_SNMPv3SecurityLevel config)) @
     invalid ''snmpv3_username'' (String_IsNull (DeviceModel_SNMPv3Username config)) @
     invalid ''snmpv3_auth_protocol'' (String_IsNull (DeviceModel_SNMPv3AuthProtocol config)) @
     invalid ''snmpv3_auth_password'' (String_IsNull (DeviceModel_SNMPv3AuthPassword config)) @
     invalid ''snmpv3_priv_protocol'' (String_IsNull (DeviceModel_SNMPv3PrivProtocol config)) @
     invalid ''snmpv3_priv_password'' (String_IsNull (DeviceModel_SNMPv3PrivPassword config)) @
     invalid ''inserted_at'' (String_IsNull (DeviceModel_InsertedAt config))"

text \<open>
  Planning a create. An attribute that the configuration sets keeps its value. One that it
  leaves null takes its \<^verbatim>\<open>Default\<close> if it declares one, else is unknown if it is
  \<^verbatim>\<open>Computed\<close>, else stays null.
\<close>

definition plan_String :: "string \<Rightarrow> types_String \<Rightarrow> types_String" where
  "plan_String name v =
     (if \<not> String_IsNull v then v
      else case Default (attribute name) of
          Some (StaticString s) \<Rightarrow> StringValue s
        | Some _ \<Rightarrow> v
        | None \<Rightarrow> if Computed (attribute name) then StringUnknown else v)"

definition plan_Bool :: "string \<Rightarrow> types_Bool \<Rightarrow> types_Bool" where
  "plan_Bool name v =
     (if \<not> Bool_IsNull v then v
      else case Default (attribute name) of
          Some (StaticBool b) \<Rightarrow> BoolValue b
        | Some _ \<Rightarrow> v
        | None \<Rightarrow> if Computed (attribute name) then BoolUnknown else v)"

definition plan_Int64 :: "string \<Rightarrow> types_Int64 \<Rightarrow> types_Int64" where
  "plan_Int64 name v =
     (if \<not> Int64_IsNull v then v
      else case Default (attribute name) of
          Some (StaticInt64 i) \<Rightarrow> Int64Value i
        | Some _ \<Rightarrow> v
        | None \<Rightarrow> if Computed (attribute name) then Int64Unknown else v)"

definition PlanCreate :: "DeviceResourceModel \<Rightarrow> DeviceResourceModel" where
  "PlanCreate config = \<lparr>
     DeviceModel_ID = plan_String ''id'' (DeviceModel_ID config),
     DeviceModel_SiteID = plan_String ''site_id'' (DeviceModel_SiteID config),
     DeviceModel_OrganizationID = plan_String ''organization_id'' (DeviceModel_OrganizationID config),
     DeviceModel_Name = plan_String ''name'' (DeviceModel_Name config),
     DeviceModel_IPAddress = plan_String ''ip_address'' (DeviceModel_IPAddress config),
     DeviceModel_Description = plan_String ''description'' (DeviceModel_Description config),
     DeviceModel_MonitoringEnabled =
       plan_Bool ''monitoring_enabled'' (DeviceModel_MonitoringEnabled config),
     DeviceModel_SNMPEnabled = plan_Bool ''snmp_enabled'' (DeviceModel_SNMPEnabled config),
     DeviceModel_SNMPVersion = plan_String ''snmp_version'' (DeviceModel_SNMPVersion config),
     DeviceModel_SNMPPort = plan_Int64 ''snmp_port'' (DeviceModel_SNMPPort config),
     DeviceModel_SNMPv3SecurityLevel =
       plan_String ''snmpv3_security_level'' (DeviceModel_SNMPv3SecurityLevel config),
     DeviceModel_SNMPv3Username = plan_String ''snmpv3_username'' (DeviceModel_SNMPv3Username config),
     DeviceModel_SNMPv3AuthProtocol =
       plan_String ''snmpv3_auth_protocol'' (DeviceModel_SNMPv3AuthProtocol config),
     DeviceModel_SNMPv3AuthPassword =
       plan_String ''snmpv3_auth_password'' (DeviceModel_SNMPv3AuthPassword config),
     DeviceModel_SNMPv3PrivProtocol =
       plan_String ''snmpv3_priv_protocol'' (DeviceModel_SNMPv3PrivProtocol config),
     DeviceModel_SNMPv3PrivPassword =
       plan_String ''snmpv3_priv_password'' (DeviceModel_SNMPv3PrivPassword config),
     DeviceModel_InsertedAt = plan_String ''inserted_at'' (DeviceModel_InsertedAt config)\<rparr>"

text \<open>
  Replacement. On a resource that has state, an attribute with the \<^verbatim>\<open>RequiresReplace\<close>
  modifier whose planned value is not equal to its stored value makes the plan a
  replacement: the stored resource is deleted and the planned one is created; otherwise
  the change is an update. Only string attributes of the schema carry the modifier.
\<close>

definition replaces :: "string \<Rightarrow> types_String \<Rightarrow> types_String \<Rightarrow> bool" where
  "replaces name stateValue planValue =
     (RequiresReplace \<in> set (PlanModifiers (attribute name)) \<and> planValue \<noteq> stateValue)"

definition Device_RequiresReplace :: "DeviceResourceModel \<Rightarrow> DeviceResourceModel \<Rightarrow> bool" where
  "Device_RequiresReplace state plan \<longleftrightarrow>
     replaces ''id'' (DeviceModel_ID state) (DeviceModel_ID plan) \<or>
     replaces ''site_id'' (DeviceModel_SiteID state) (DeviceModel_SiteID plan) \<or>
     replaces ''organization_id'' (DeviceModel_OrganizationID state) (DeviceModel_OrganizationID plan) \<or>
     replaces ''name'' (DeviceModel_Name state) (DeviceModel_Name plan) \<or>
     replaces ''ip_address'' (DeviceModel_IPAddress state) (DeviceModel_IPAddress plan) \<or>
     replaces ''description'' (DeviceModel_Description state) (DeviceModel_Description plan) \<or>
     replaces ''snmp_version'' (DeviceModel_SNMPVersion state) (DeviceModel_SNMPVersion plan) \<or>
     replaces ''snmpv3_security_level''
       (DeviceModel_SNMPv3SecurityLevel state) (DeviceModel_SNMPv3SecurityLevel plan) \<or>
     replaces ''snmpv3_username'' (DeviceModel_SNMPv3Username state) (DeviceModel_SNMPv3Username plan) \<or>
     replaces ''snmpv3_auth_protocol''
       (DeviceModel_SNMPv3AuthProtocol state) (DeviceModel_SNMPv3AuthProtocol plan) \<or>
     replaces ''snmpv3_auth_password''
       (DeviceModel_SNMPv3AuthPassword state) (DeviceModel_SNMPv3AuthPassword plan) \<or>
     replaces ''snmpv3_priv_protocol''
       (DeviceModel_SNMPv3PrivProtocol state) (DeviceModel_SNMPv3PrivProtocol plan) \<or>
     replaces ''snmpv3_priv_password''
       (DeviceModel_SNMPv3PrivPassword state) (DeviceModel_SNMPv3PrivPassword plan) \<or>
     replaces ''inserted_at'' (DeviceModel_InsertedAt state) (DeviceModel_InsertedAt plan)"

text \<open>
  Each method is handed a response without diagnostics that holds the resource's state
  before the call: none for a create, the stored state otherwise.
\<close>

definition response_with :: "'m option \<Rightarrow> 'm response" where
  "response_with st = \<lparr>State = st, Diagnostics = []\<rparr>"

text \<open>
  Applying a planned change to a device that has state: a replacement runs \<^verbatim>\<open>Delete\<close> on
  the stored state and, if that reported no error, \<^verbatim>\<open>Create\<close> on the plan; any other change
  runs \<^verbatim>\<open>Update\<close> on the plan.
\<close>

definition Device_ApplyChange ::
  "'w Client \<Rightarrow> DeviceResourceModel \<Rightarrow> DeviceResourceModel \<Rightarrow> 'w net
     \<Rightarrow> DeviceResourceModel response \<times> 'w net" where
  "Device_ApplyChange r state plan n =
     (if Device_RequiresReplace state plan then
        (case DeviceResource_Delete r state (response_with (Some state)) n of
           (resp, n') \<Rightarrow>
             if HasError (Diagnostics resp) then (resp, n')
             else DeviceResource_Create r plan (response_with None) n')
      else DeviceResource_Update r plan (response_with (Some state)) n)"

text \<open>
  Refresh: \<^verbatim>\<open>Read\<close> is run on the stored state, and the state of its response is the
  resource's state afterwards.
\<close>

definition Device_Refresh ::
  "'w Client \<Rightarrow> DeviceResourceModel \<Rightarrow> 'w net \<Rightarrow> DeviceResourceModel option \<times> 'w net" where
  "Device_Refresh r data n =
     (case DeviceResource_Read r data (response_with (Some data)) n of
        (resp, n') \<Rightarrow> (State resp, n'))"

definition Site_Refresh ::
  "'w Client \<Rightarrow> SiteResourceModel \<Rightarrow> 'w net \<Rightarrow> SiteResourceModel option \<times> 'w net" where
  "Site_Refresh r data n =
     (case SiteResource_Read r data (response_with (Some data)) n of
        (resp, n') \<Rightarrow> (State resp, n'))"

subsection \<open>Requests by name, and example data\<close>

text \<open>The path and the body of the requests for a device's data.\<close>

abbreviation device_path :: "DeviceResourceModel \<Rightarrow> string" where
  "device_path data \<equiv> ''/api/v1/devices/'' @ ValueString (DeviceModel_ID data)"

abbreviation device_body :: "DeviceResourceModel \<Rightarrow> body option" where
  "device_body data \<equiv> Some (DeviceMap [(''device'', Device_of_data data)])"

abbreviation site_path :: "SiteResourceModel \<Rightarrow> string" where
  "site_path data \<equiv> ''/api/v1/sites/'' @ ValueString (SiteModel_ID data)"

text \<open>
  For the examples: a client whose remote system answers each request by a fixed function
  and has no state, a connection that has sent nothing, and a stored device.
\<close>

definition example_client :: "(request \<Rightarrow> outcome) \<Rightarrow> unit Client" where
  "example_client server = \<lparr>BaseURL = ''https://towerops.net'', Token = ''test-token'',
     HTTPClient = (\<lambda>req w. (server req, w))\<rparr>"

definition example_net :: "unit net" where
  "example_net = \<lparr>remote = (), sent = []\<rparr>"

definition example_data :: DeviceResourceModel where
  "example_data = \<lparr>
     DeviceModel_ID = StringValue ''D1'',
     DeviceModel_SiteID = StringValue ''site-123'',
     DeviceModel_OrganizationID = StringNull,
     DeviceModel_Name = StringValue ''Test Device'',
     DeviceModel_IPAddress = StringValue ''192.168.1.2'',
     DeviceModel_Description = StringNull,
     DeviceModel_MonitoringEnabled = BoolValue True,
     DeviceModel_SNMPEnabled = BoolValue True,
     DeviceModel_SNMPVersion = StringValue ''2c'',
     DeviceModel_SNMPPort = Int64Value 161,
     DeviceModel_SNMPv3SecurityLevel = StringNull,
     DeviceModel_SNMPv3Username = StringNull,
     DeviceModel_SNMPv3AuthProtocol = StringNull,
     DeviceModel_SNMPv3AuthPassword = StringNull,
     DeviceModel_SNMPv3PrivProtocol = StringNull,
     DeviceModel_SNMPv3PrivPassword = StringNull,
     DeviceModel_InsertedAt = StringValue ''2024-01-01T00:00:00Z''\<rparr>"

text \<open>
  Remote systems for the examples: one where the device \<^verbatim>\<open>D1\<close> is gone and everything
  else fails with status 500, and one where nothing is found.
\<close>

definition failing_server :: "request \<Rightarrow> outcome" where
  "failing_server req =
     (if Method req = ''PATCH'' \<and> URL req = ''https://towerops.net/api/v1/devices/D1''
        then Response 404 (Valid (JObject [(''error'', JString ''device not found'')]))
      else Response 500 (Valid (JObject [(''error'', JString ''internal error'')])))"

definition gone_server :: "request \<Rightarrow> outcome" where
  "gone_server req = Response 404 (Valid (JObject [(''error'', JString ''device not found'')]))"

definition example_other :: DeviceResourceModel where
  "example_other = example_data\<lparr>DeviceModel_ID := StringValue ''D7''\<rparr>"

text \<open>
  A remote system whose create response differs from what was asked for, whose read
  response leaves out the monitoring and SNMP fields, which deletes with status 204 and
  answers an update with status 404; a plan for a create, whose computed attributes are
  unknown; a stored site and a remote system for it.
\<close>

definition example_server :: "request \<Rightarrow> outcome" where
  "example_server req =
     (if Method req = ''POST'' then
        Response 201 (Valid (JObject [
          (''id'', JString ''D1''),
          (''site_id'', JString ''site-123''),
          (''name'', JString ''Test Device''),
          (''ip_address'', JString ''10.0.0.9''),
          (''description'', JString ''set by the server''),
          (''monitoring_enabled'', JBool False),
          (''snmp_version'', JString ''3''),
          (''snmp_port'', JNumber 162),
          (''snmpv3_username'', JString ''operator''),
          (''inserted_at'', JString ''2024-01-01T00:00:00Z'')]))
      else if Method req = ''GET'' then
        Response 200 (Valid (JObject [
          (''id'', JString ''D1''),
          (''site_id'', JString ''site-123''),
          (''name'', JString ''Renamed Device''),
          (''ip_address'', JString ''192.168.1.2''),
          (''inserted_at'', JString ''2024-01-01T00:00:00Z'')]))
      else if Method req = ''DELETE'' then Response 204 (Invalid [])
      else Response 404 (Valid (JObject [(''error'', JString ''device not found'')])))"

definition example_plan :: DeviceResourceModel where
  "example_plan = example_data\<lparr>DeviceModel_ID := StringUnknown,
     DeviceModel_OrganizationID := StringUnknown, DeviceModel_InsertedAt := StringUnknown\<rparr>"


definition example_site :: SiteResourceModel where
  "example_site = \<lparr>
     SiteModel_ID = StringValue ''S1'',
     SiteModel_Name = StringValue ''Main Office'',
     SiteModel_Location = StringValue ''New York, NY'',
     SiteModel_SNMPCommunity = StringNull,
     SiteModel_InsertedAt = StringValue ''2024-01-01T00:00:00Z''\<rparr>"

definition site_server :: "request \<Rightarrow> outcome" where
  "site_server req =
     (if Method req = ''GET'' then
        Response 200 (Valid (JObject [
          (''id'', JString ''S1''),
          (''name'', JString ''Head Office''),
          (''snmp_community'', JString ''public''),
          (''inserted_at'', JString ''2024-01-01T00:00:00Z'')]))
      else Response 404 (Invalid []))"

text \<open>
  Configurations: nothing set, a site and an address, both parents and an address; and a
  plan that moves the stored device to another site.
\<close>

definition null_config :: DeviceResourceModel where
  "null_config = \<lparr>
     DeviceModel_ID = StringNull,
     DeviceModel_SiteID = StringNull,
     DeviceModel_OrganizationID = StringNull,
     DeviceModel_Name = StringNull,
     DeviceModel_IPAddress = StringNull,
     DeviceModel_Description = StringNull,
     DeviceModel_MonitoringEnabled = BoolNull,
     DeviceModel_SNMPEnabled = BoolNull,
     DeviceModel_SNMPVersion = StringNull,
     DeviceModel_SNMPPort = Int64Null,
     DeviceModel_SNMPv3SecurityLevel = StringNull,
     DeviceModel_SNMPv3Username = StringNull,
     DeviceModel_SNMPv3AuthProtocol = StringNull,
     DeviceModel_SNMPv3AuthPassword = StringNull,
     DeviceModel_SNMPv3PrivProtocol = StringNull,
     DeviceModel_SNMPv3PrivPassword = StringNull,
     DeviceModel_InsertedAt = StringNull\<rparr>"

definition minimal_config :: DeviceResourceModel where
  "minimal_config = null_config\<lparr>DeviceModel_SiteID := StringValue ''S1'',
     DeviceModel_IPAddress := StringValue ''192.168.1.1''\<rparr>"

definition both_config :: DeviceResourceModel where
  "both_config = null_config\<lparr>DeviceModel_SiteID := StringValue ''site-A'',
     DeviceModel_OrganizationID := StringValue ''org-1'',
     DeviceModel_IPAddress := StringValue ''192.168.1.1''\<rparr>"


definition moved_plan :: DeviceResourceModel where
  "moved_plan = example_data\<lparr>DeviceModel_SiteID := StringValue ''site-B''\<rparr>"




section \<open>Properties\<close>

subsection \<open>Auxiliary facts\<close>

lemma foldName_simps [simp]: "foldName [] = []" "foldName (c # cs) = upper c # foldName cs"
  by (simp_all add: foldName_def)

lemma doRequest_net:
  "snd (doRequest c m p b n) =
     \<lparr>remote = snd (HTTPClient c (newRequest c m p b) (remote n)),
      sent = sent n @ [newRequest c m p b]\<rparr>"
  by (simp add: doRequest_def Let_def split: prod.splits outcome.splits)

lemma device_result_net: "snd (device_result res) = snd res"
  by (simp add: device_result_def split: prod.splits sum.splits option.splits)

lemma UpdateDevice_sent:
  "sent (snd (UpdateDevice c i d n)) =
     sent n @ [newRequest c ''PATCH'' (''/api/v1/devices/'' @ i) (Some (DeviceMap [(''device'', d)]))]"
  by (simp add: UpdateDevice_def device_result_net doRequest_net)

lemma CreateDevice_sent:
  "sent (snd (CreateDevice c d n)) =
     sent n @ [newRequest c ''POST'' ''/api/v1/devices'' (Some (DeviceMap [(''device'', d)]))]"
  by (simp add: CreateDevice_def device_result_net doRequest_net)

lemma no_error_diagnostic: "\<not> HasError ds \<Longrightarrow> ErrorDiagnostic s e \<notin> set ds"
  by (induction ds rule: HasError.induct) auto

lemma Update_after_NotFound:
  assumes "\<not> HasError (Diagnostics resp)"
    and "fst (UpdateDevice r (ValueString (DeviceModel_ID data)) (Device_of_data data) n) = Inl ErrNotFound"
  shows "DeviceResource_Update r data resp n =
     (case CreateDevice r (Device_of_data data)
             (snd (UpdateDevice r (ValueString (DeviceModel_ID data)) (Device_of_data data) n)) of
        (Inl createErr, n2) \<Rightarrow>
          (AddError ''Failed to create device (after 404 on update)'' createErr resp, n2)
      | (Inr created, n2) \<Rightarrow> (resp\<lparr>State := Some (Recreate_data data created)\<rparr>, n2))"
  using assms
  by (cases "UpdateDevice r (ValueString (DeviceModel_ID data)) (Device_of_data data) n")
     (simp add: DeviceResource_Update_def Let_def Is_ErrNotFound_def)

lemmas example_defs = example_client_def example_net_def example_data_def response_with_def

lemmas client_defs = CreateDevice_def GetDevice_def UpdateDevice_def DeleteDevice_def
  CreateSite_def GetSite_def UpdateSite_def DeleteSite_def
  device_result_def site_result_def doRequest_def newRequest_def statusError_def Let_def

lemmas json_defs = Device_member_def Site_member_def APIError_member_def upper_def
  zero_Device_def zero_Site_def zero_APIError_def
  Marshal_Device_def Marshal_Site_def omitempty_ptr_def omitempty_string_def JInt_def

lemmas data_defs = Device_of_data_def String_ptr_def Bool_ptr_def Int64_ptr_def
  String_or_null_def String_if_set_def Bool_if_set_def Int64_if_set_def

subsection \<open>Recreate on drift\<close>

text \<open>
  Claim C1, as amended. When the update call of \<^verbatim>\<open>Update\<close> returns \<open>ErrNotFound\<close>, the
  method sends exactly two requests, the PATCH and then one POST with the same body. If
  the create succeeds, the stored state takes the id, \<^verbatim>\<open>inserted_at\<close> and \<^verbatim>\<open>ip_address\<close> of
  the created device, its \<^verbatim>\<open>site_id\<close> and \<^verbatim>\<open>organization_id\<close> (null when absent), and each of
  name, description, \<^verbatim>\<open>monitoring_enabled\<close>, \<^verbatim>\<open>snmp_enabled\<close>, \<^verbatim>\<open>snmp_version\<close> and
  \<^verbatim>\<open>snmp_port\<close> that the response holds (the planned value otherwise); the six SNMPv3
  fields keep their planned values whatever the response holds. The id stored is the
  created device's whatever the id was before. If the create fails, the one diagnostic
  added is "Failed to create device (after 404 on update)" with the create's error, and
  no "Failed to update device" diagnostic is reported.
\<close>

theorem recreate_on_missing_update:
  assumes "\<not> HasError (Diagnostics resp)"
    and "fst (UpdateDevice r (ValueString (DeviceModel_ID data)) (Device_of_data data) n) = Inl ErrNotFound"
  shows "sent (snd (DeviceResource_Update r data resp n)) =
           sent n @ [newRequest r ''PATCH'' (device_path data) (device_body data),
                     newRequest r ''POST'' ''/api/v1/devices'' (device_body data)]
     \<and> (\<forall>created.
           fst (CreateDevice r (Device_of_data data)
                 (snd (UpdateDevice r (ValueString (DeviceModel_ID data)) (Device_of_data data) n)))
             = Inr created \<longrightarrow>
           (\<exists>s. fst (DeviceResource_Update r data resp n) = resp\<lparr>State := Some s\<rparr>
              \<and> DeviceModel_ID s = StringValue (Device_ID created)
              \<and> DeviceModel_InsertedAt s = StringValue (Device_InsertedAt created)
              \<and> DeviceModel_IPAddress s = StringValue (Device_IPAddress created)
              \<and> DeviceModel_SiteID s = String_or_null (Device_SiteID created)
              \<and> DeviceModel_OrganizationID s = String_or_null (Device_OrganizationID created)
              \<and> DeviceModel_Name s =
                  (case Device_Name created of
                     Some v \<Rightarrow> StringValue v | None \<Rightarrow> DeviceModel_Name data)
              \<and> DeviceModel_Description s =
                  (case Device_Description created of
                     Some v \<Rightarrow> StringValue v | None \<Rightarrow> DeviceModel_Description data)
              \<and> DeviceModel_MonitoringEnabled s =
                  (case Device_MonitoringEnabled created of
                     Some v \<Rightarrow> BoolValue v | None \<Rightarrow> DeviceModel_MonitoringEnabled data)
              \<and> DeviceModel_SNMPEnabled s =
                  (case Device_SNMPEnabled created of
                     Some v \<Rightarrow> BoolValue v | None \<Rightarrow> DeviceModel_SNMPEnabled data)
              \<and> DeviceModel_SNMPVersion s =
                  (case Device_SNMPVersion created of
                     Some v \<Rightarrow> StringValue v | None \<Rightarrow> DeviceModel_SNMPVersion data)
              \<and> DeviceModel_SNMPPort s =
                  (case Device_SNMPPort created of
                     Some v \<Rightarrow> Int64Value v | None \<Rightarrow> DeviceModel_SNMPPort data)
              \<and> DeviceModel_SNMPv3SecurityLevel s = DeviceModel_SNMPv3SecurityLevel data
              \<and> DeviceModel_SNMPv3Username s = DeviceModel_SNMPv3Username data
              \<and> DeviceModel_SNMPv3AuthProtocol s = DeviceModel_SNMPv3AuthProtocol data
              \<and> DeviceModel_SNMPv3AuthPassword s = DeviceModel_SNMPv3AuthPassword data
              \<and> DeviceModel_SNMPv3PrivProtocol s = DeviceModel_SNMPv3PrivProtocol data
              \<and> DeviceModel_SNMPv3PrivPassword s = DeviceModel_SNMPv3PrivPassword data))
     \<and> (\<forall>createErr.
           fst (CreateDevice r (Device_of_data data)
                 (snd (UpdateDevice r (ValueString (DeviceModel_ID data)) (Device_of_data data) n)))
             = Inl createErr \<longrightarrow>
           fst (DeviceResource_Update r data resp n) =
             AddError ''Failed to create device (after 404 on update)'' createErr resp
           \<and> State (fst (DeviceResource_Update r data resp n)) = State resp
           \<and> (\<forall>e. ErrorDiagnostic ''Failed to update device'' e
                  \<notin> set (Diagnostics (fst (DeviceResource_Update r data resp n)))))"
proof -
  let ?n1 = "snd (UpdateDevice r (ValueString (DeviceModel_ID data)) (Device_of_data data) n)"
  let ?c = "CreateDevice r (Device_of_data data) ?n1"
  note upd = Update_after_NotFound [OF assms]
  have net: "snd (DeviceResource_Update r data resp n) = snd ?c"
    by (simp add: upd split: prod.splits sum.splits)
  have sent: "sent (snd (DeviceResource_Update r data resp n)) =
           sent n @ [newRequest r ''PATCH'' (device_path data) (device_body data),
                     newRequest r ''POST'' ''/api/v1/devices'' (device_body data)]"
    by (simp add: net CreateDevice_sent UpdateDevice_sent)
  have created: "\<exists>s. fst (DeviceResource_Update r data resp n) = resp\<lparr>State := Some s\<rparr>
              \<and> DeviceModel_ID s = StringValue (Device_ID created)
              \<and> DeviceModel_InsertedAt s = StringValue (Device_InsertedAt created)
              \<and> DeviceModel_IPAddress s = StringValue (Device_IPAddress created)
              \<and> DeviceModel_SiteID s = String_or_null (Device_SiteID created)
              \<and> DeviceModel_OrganizationID s = String_or_null (Device_OrganizationID created)
              \<and> DeviceModel_Name s =
                  (case Device_Name created of
                     Some v \<Rightarrow> StringValue v | None \<Rightarrow> DeviceModel_Name data)
              \<and> DeviceModel_Description s =
                  (case Device_Description created of
                     Some v \<Rightarrow> StringValue v | None \<Rightarrow> DeviceModel_Description data)
              \<and> DeviceModel_MonitoringEnabled s =
                  (case Device_MonitoringEnabled created of
                     Some v \<Rightarrow> BoolValue v | None \<Rightarrow> DeviceModel_MonitoringEnabled data)
              \<and> DeviceModel_SNMPEnabled s =
                  (case Device_SNMPEnabled created of
                     Some v \<Rightarrow> BoolValue v | None \<Rightarrow> DeviceModel_SNMPEnabled data)
              \<and> DeviceModel_SNMPVersion s =
                  (case Device_SNMPVersion created of
                     Some v \<Rightarrow> StringValue v | None \<Rightarrow> DeviceModel_SNMPVersion data)
              \<and> DeviceModel_SNMPPort s =
                  (case Device_SNMPPort created of
                     Some v \<Rightarrow> Int64Value v | None \<Rightarrow> DeviceModel_SNMPPort data)
              \<and> DeviceModel_SNMPv3SecurityLevel s = DeviceModel_SNMPv3SecurityLevel data
              \<and> DeviceModel_SNMPv3Username s = DeviceModel_SNMPv3Username data
              \<and> DeviceModel_SNMPv3AuthProtocol s = DeviceModel_SNMPv3AuthProtocol data
              \<and> DeviceModel_SNMPv3AuthPassword s = DeviceModel_SNMPv3AuthPassword data
              \<and> DeviceModel_SNMPv3PrivProtocol s = DeviceModel_SNMPv3PrivProtocol data
              \<and> DeviceModel_SNMPv3PrivPassword s = DeviceModel_SNMPv3PrivPassword data"
    if "fst ?c = Inr created" for created
  proof -
    from that have "fst (DeviceResource_Update r data resp n) =
        resp\<lparr>State := Some (Recreate_data data created)\<rparr>"
      by (cases ?c) (simp add: upd)
    then show ?thesis
      by (intro exI [of _ "Recreate_data data created"])
         (simp add: Recreate_data_def String_if_set_def Bool_if_set_def Int64_if_set_def)
  qed
  have failed: "fst (DeviceResource_Update r data resp n) =
             AddError ''Failed to create device (after 404 on update)'' createErr resp
           \<and> State (fst (DeviceResource_Update r data resp n)) = State resp
           \<and> (\<forall>e. ErrorDiagnostic ''Failed to update device'' e
                  \<notin> set (Diagnostics (fst (DeviceResource_Update r data resp n))))"
    if "fst ?c = Inl createErr" for createErr
  proof -
    from that have "fst (DeviceResource_Update r data resp n) =
             AddError ''Failed to create device (after 404 on update)'' createErr resp"
      by (cases ?c) (simp add: upd)
    then show ?thesis
      using no_error_diagnostic [OF assms(1)] by (simp add: AddError_def)
  qed
  from sent created failed show ?thesis by blast
qed

theorem recreate_on_missing_update_witness:
  "\<not> HasError (Diagnostics (response_with (Some example_data)))
   \<and> fst (UpdateDevice (example_client example_server) ''D1'' (Device_of_data example_data) example_net)
       = Inl ErrNotFound
   \<and> map Method (sent (snd (DeviceResource_Update (example_client example_server) example_data
         (response_with (Some example_data)) example_net))) = [''PATCH'', ''POST'']
   \<and> map Body (sent (snd (DeviceResource_Update (example_client example_server) example_data
         (response_with (Some example_data)) example_net)))
       = [Some (Marshal (DeviceMap [(''device'', Device_of_data example_data)])),
          Some (Marshal (DeviceMap [(''device'', Device_of_data example_data)]))]
   \<and> (\<exists>s. State (fst (DeviceResource_Update (example_client example_server) example_data
         (response_with (Some example_data)) example_net)) = Some s
        \<and> DeviceModel_ID s = StringValue ''D1''
        \<and> DeviceModel_IPAddress s = StringValue ''10.0.0.9''
        \<and> DeviceModel_Description s = StringValue ''set by the server''
        \<and> DeviceModel_SNMPEnabled s = BoolValue True
        \<and> DeviceModel_SNMPPort s = Int64Value 162
        \<and> DeviceModel_SNMPv3Username s = StringNull)"
proof -
  let ?r = "example_client example_server"
  let ?created = "zero_Device\<lparr>Device_ID := ''D1'', Device_SiteID := Some ''site-123'',
          Device_Name := Some ''Test Device'', Device_IPAddress := ''10.0.0.9'',
          Device_Description := Some ''set by the server'',
          Device_MonitoringEnabled := Some False,
          Device_SNMPVersion := Some ''3'', Device_SNMPPort := Some 162,
          Device_SNMPv3Username := Some ''operator'',
          Device_InsertedAt := ''2024-01-01T00:00:00Z''\<rparr>"
  have ok: "\<not> HasError (Diagnostics (response_with (Some example_data)))"
    by (simp add: response_with_def)
  have id: "ValueString (DeviceModel_ID example_data) = ''D1''"
    by (simp add: example_data_def)
  have nf: "fst (UpdateDevice ?r (ValueString (DeviceModel_ID example_data))
               (Device_of_data example_data) example_net) = Inl ErrNotFound"
    by (simp add: id client_defs example_client_def example_server_def)
  have created: "fst (CreateDevice ?r (Device_of_data example_data)
        (snd (UpdateDevice ?r (ValueString (DeviceModel_ID example_data))
               (Device_of_data example_data) example_net))) = Inr ?created"
    by (simp add: client_defs example_client_def example_server_def json_defs)
  note main = recreate_on_missing_update [OF ok nf]
  from main have sent: "sent (snd (DeviceResource_Update ?r example_data
         (response_with (Some example_data)) example_net)) =
      sent example_net @ [newRequest ?r ''PATCH'' (device_path example_data) (device_body example_data),
                     newRequest ?r ''POST'' ''/api/v1/devices'' (device_body example_data)]"
    by (rule conjunct1)
  then have methods: "map Method (sent (snd (DeviceResource_Update ?r example_data
         (response_with (Some example_data)) example_net))) = [''PATCH'', ''POST'']"
    by (simp add: newRequest_def example_net_def)
  from sent have bodies: "map Body (sent (snd (DeviceResource_Update ?r example_data
         (response_with (Some example_data)) example_net)))
       = [Some (Marshal (DeviceMap [(''device'', Device_of_data example_data)])),
          Some (Marshal (DeviceMap [(''device'', Device_of_data example_data)]))]"
    by (simp add: newRequest_def example_net_def)
  from main created obtain s where
    "fst (DeviceResource_Update ?r example_data (response_with (Some example_data)) example_net)
       = (response_with (Some example_data))\<lparr>State := Some s\<rparr>"
    "DeviceModel_ID s = StringValue (Device_ID ?created)"
    "DeviceModel_IPAddress s = StringValue (Device_IPAddress ?created)"
    "DeviceModel_Description s =
       (case Device_Description ?created of
          Some v \<Rightarrow> StringValue v | None \<Rightarrow> DeviceModel_Description example_data)"
    "DeviceModel_SNMPEnabled s =
       (case Device_SNMPEnabled ?created of
          Some v \<Rightarrow> BoolValue v | None \<Rightarrow> DeviceModel_SNMPEnabled example_data)"
    "DeviceModel_SNMPPort s =
       (case Device_SNMPPort ?created of
          Some v \<Rightarrow> Int64Value v | None \<Rightarrow> DeviceModel_SNMPPort example_data)"
    "DeviceModel_SNMPv3Username s = DeviceModel_SNMPv3Username example_data"
    by blast
  then have "State (fst (DeviceResource_Update ?r example_data
         (response_with (Some example_data)) example_net)) = Some s
        \<and> DeviceModel_ID s = StringValue ''D1''
        \<and> DeviceModel_IPAddress s = StringValue ''10.0.0.9''
        \<and> DeviceModel_Description s = StringValue ''set by the server''
        \<and> DeviceModel_SNMPEnabled s = BoolValue True
        \<and> DeviceModel_SNMPPort s = Int64Value 162
        \<and> DeviceModel_SNMPv3Username s = StringNull"
    by (simp add: zero_Device_def example_data_def)
  with ok nf methods bodies show ?thesis
    unfolding id by blast
qed

text \<open>
  The claim as stated fails: the update below is answered with status 404 and the create
  that follows with a device that holds an SNMPv3 user; the state after the method holds
  the other fields of the response and not that one, which stays null as planned.
\<close>

theorem recreate_echo_counterexample:
  "fst (UpdateDevice (example_client example_server) ''D1'' (Device_of_data example_data) example_net)
     = Inl ErrNotFound
   \<and> fst (CreateDevice (example_client example_server) (Device_of_data example_data)
          (snd (UpdateDevice (example_client example_server) ''D1'' (Device_of_data example_data)
                 example_net)))
     = Inr (zero_Device\<lparr>Device_ID := ''D1'', Device_SiteID := Some ''site-123'',
          Device_Name := Some ''Test Device'', Device_IPAddress := ''10.0.0.9'',
          Device_Description := Some ''set by the server'',
          Device_MonitoringEnabled := Some False,
          Device_SNMPVersion := Some ''3'', Device_SNMPPort := Some 162,
          Device_SNMPv3Username := Some ''operator'',
          Device_InsertedAt := ''2024-01-01T00:00:00Z''\<rparr>)
   \<and> State (fst (DeviceResource_Update (example_client example_server) example_data
          (response_with (Some example_data)) example_net))
     = Some (example_data\<lparr>DeviceModel_IPAddress := StringValue ''10.0.0.9'',
          DeviceModel_Description := StringValue ''set by the server'',
          DeviceModel_MonitoringEnabled := BoolValue False,
          DeviceModel_SNMPVersion := StringValue ''3'',
          DeviceModel_SNMPPort := Int64Value 162\<rparr>)
   \<and> DeviceModel_SNMPv3Username example_data = StringNull"
  by (simp add: DeviceResource_Update_def Recreate_data_def Is_ErrNotFound_def client_defs
        json_defs data_defs example_defs example_server_def)

subsection \<open>The first value of each method\<close>

lemma AddError_simps [simp]:
  "State (AddError s e resp) = State resp"
  "Diagnostics (AddError s e resp) = Diagnostics resp @ [ErrorDiagnostic s e]"
  by (simp_all add: AddError_def)

lemma Create_fst:
  assumes "\<not> HasError (Diagnostics resp)"
  shows "fst (DeviceResource_Create r data resp n) =
     (case fst (CreateDevice r (Device_of_data data) n) of
        Inl err \<Rightarrow> AddError ''Failed to create device'' err resp
      | Inr created \<Rightarrow> resp\<lparr>State := Some (Create_data data created)\<rparr>)"
  using assms
  by (cases "CreateDevice r (Device_of_data data) n")
     (simp add: DeviceResource_Create_def split: sum.splits)

lemma Update_fst:
  assumes "\<not> HasError (Diagnostics resp)"
  shows "fst (DeviceResource_Update r data resp n) =
     (case fst (UpdateDevice r (ValueString (DeviceModel_ID data)) (Device_of_data data) n) of
        Inl err \<Rightarrow>
          if err = ErrNotFound then
            (case fst (CreateDevice r (Device_of_data data)
                    (snd (UpdateDevice r (ValueString (DeviceModel_ID data)) (Device_of_data data) n))) of
               Inl createErr \<Rightarrow> AddError ''Failed to create device (after 404 on update)'' createErr resp
             | Inr created \<Rightarrow> resp\<lparr>State := Some (Recreate_data data created)\<rparr>)
          else AddError ''Failed to update device'' err resp
      | Inr updated \<Rightarrow> resp\<lparr>State := Some (Update_data data updated)\<rparr>)"
  using assms
  by (cases "UpdateDevice r (ValueString (DeviceModel_ID data)) (Device_of_data data) n")
     (simp add: DeviceResource_Update_def Let_def Is_ErrNotFound_def split: sum.splits prod.splits)

lemma Delete_fst:
  assumes "\<not> HasError (Diagnostics resp)"
  shows "fst (DeviceResource_Delete r data resp n) =
     (case fst (DeleteDevice r (ValueString (DeviceModel_ID data)) n) of
        Some err \<Rightarrow> AddError ''Failed to delete device'' err resp
      | None \<Rightarrow> resp)"
  using assms
  by (cases "DeleteDevice r (ValueString (DeviceModel_ID data)) n")
     (simp add: DeviceResource_Delete_def split: option.splits)

lemma Read_fst:
  assumes "\<not> HasError (Diagnostics resp)"
  shows "fst (DeviceResource_Read r data resp n) =
     (case fst (GetDevice r (ValueString (DeviceModel_ID data)) n) of
        Inl err \<Rightarrow>
          if err = ErrNotFound then resp\<lparr>State := None\<rparr>
          else AddError ''Failed to read device'' err resp
      | Inr device \<Rightarrow> resp\<lparr>State := Some (Read_data data device)\<rparr>)"
  using assms
  by (cases "GetDevice r (ValueString (DeviceModel_ID data)) n")
     (simp add: DeviceResource_Read_def Is_ErrNotFound_def split: sum.splits)

lemma Site_Read_fst:
  assumes "\<not> HasError (Diagnostics resp)"
  shows "fst (SiteResource_Read r data resp n) =
     (case fst (GetSite r (ValueString (SiteModel_ID data)) n) of
        Inl err \<Rightarrow>
          if err = ErrNotFound then resp\<lparr>State := None\<rparr>
          else AddError ''Failed to read site'' err resp
      | Inr site \<Rightarrow> resp\<lparr>State := Some (Site_Read_data data site)\<rparr>)"
  using assms
  by (cases "GetSite r (ValueString (SiteModel_ID data)) n")
     (simp add: SiteResource_Read_def Is_ErrNotFound_def split: sum.splits)

subsection \<open>A failed call writes no state\<close>

text \<open>
  Claim C10. When the client call of \<^verbatim>\<open>Create\<close>, \<^verbatim>\<open>Update\<close> or \<^verbatim>\<open>Delete\<close> on a device
  fails (for \<^verbatim>\<open>Update\<close>: with an error other than \<open>ErrNotFound\<close>, or with \<open>ErrNotFound\<close>
  and then a failing create), the method leaves the state of the response as it was
  handed in and adds exactly one error diagnostic, naming the operation and holding the
  error.
\<close>

theorem failed_call_leaves_state:
  assumes "\<not> HasError (Diagnostics resp)"
  shows "(\<forall>err. fst (CreateDevice r (Device_of_data data) n) = Inl err \<longrightarrow>
            State (fst (DeviceResource_Create r data resp n)) = State resp
          \<and> Diagnostics (fst (DeviceResource_Create r data resp n)) =
              Diagnostics resp @ [ErrorDiagnostic ''Failed to create device'' err])
     \<and> (\<forall>err. fst (UpdateDevice r (ValueString (DeviceModel_ID data)) (Device_of_data data) n) = Inl err
                \<and> err \<noteq> ErrNotFound \<longrightarrow>
            State (fst (DeviceResource_Update r data resp n)) = State resp
          \<and> Diagnostics (fst (DeviceResource_Update r data resp n)) =
              Diagnostics resp @ [ErrorDiagnostic ''Failed to update device'' err])
     \<and> (\<forall>createErr.
            fst (UpdateDevice r (ValueString (DeviceModel_ID data)) (Device_of_data data) n)
              = Inl ErrNotFound
          \<and> fst (CreateDevice r (Device_of_data data)
                 (snd (UpdateDevice r (ValueString (DeviceModel_ID data)) (Device_of_data data) n)))
              = Inl createErr \<longrightarrow>
            State (fst (DeviceResource_Update r data resp n)) = State resp
          \<and> Diagnostics (fst (DeviceResource_Update r data resp n)) =
              Diagnostics resp @
                [ErrorDiagnostic ''Failed to create device (after 404 on update)'' createErr])
     \<and> (\<forall>err. fst (DeleteDevice r (ValueString (DeviceModel_ID data)) n) = Some err \<longrightarrow>
            State (fst (DeviceResource_Delete r data resp n)) = State resp
          \<and> Diagnostics (fst (DeviceResource_Delete r data resp n)) =
              Diagnostics resp @ [ErrorDiagnostic ''Failed to delete device'' err])"
  by (simp add: Create_fst [OF assms] Update_fst [OF assms] Delete_fst [OF assms])

theorem failed_call_leaves_state_witness:
  "\<not> HasError (Diagnostics (response_with (Some example_data)))
   \<and> fst (CreateDevice (example_client failing_server) (Device_of_data example_data) example_net)
       = Inl (APIErrorMessage 500 ''internal error'')
   \<and> State (fst (DeviceResource_Create (example_client failing_server) example_data
        (response_with (Some example_data)) example_net)) = Some example_data
   \<and> Diagnostics (fst (DeviceResource_Create (example_client failing_server) example_data
        (response_with (Some example_data)) example_net))
       = [ErrorDiagnostic ''Failed to create device'' (APIErrorMessage 500 ''internal error'')]
   \<and> fst (UpdateDevice (example_client failing_server) ''D7'' (Device_of_data example_other) example_net)
       = Inl (APIErrorMessage 500 ''internal error'')
   \<and> APIErrorMessage 500 ''internal error'' \<noteq> ErrNotFound
   \<and> State (fst (DeviceResource_Update (example_client failing_server) example_other
        (response_with (Some example_data)) example_net)) = Some example_data
   \<and> Diagnostics (fst (DeviceResource_Update (example_client failing_server) example_other
        (response_with (Some example_data)) example_net))
       = [ErrorDiagnostic ''Failed to update device'' (APIErrorMessage 500 ''internal error'')]
   \<and> fst (UpdateDevice (example_client failing_server) ''D1'' (Device_of_data example_data) example_net)
       = Inl ErrNotFound
   \<and> fst (CreateDevice (example_client failing_server) (Device_of_data example_data)
          (snd (UpdateDevice (example_client failing_server) ''D1'' (Device_of_data example_data)
                 example_net)))
       = Inl (APIErrorMessage 500 ''internal error'')
   \<and> State (fst (DeviceResource_Update (example_client failing_server) example_data
        (response_with (Some example_data)) example_net)) = Some example_data
   \<and> Diagnostics (fst (DeviceResource_Update (example_client failing_server) example_data
        (response_with (Some example_data)) example_net))
       = [ErrorDiagnostic ''Failed to create device (after 404 on update)''
            (APIErrorMessage 500 ''internal error'')]
   \<and> fst (DeleteDevice (example_client failing_server) ''D1'' example_net)
       = Some (APIErrorMessage 500 ''internal error'')
   \<and> State (fst (DeviceResource_Delete (example_client failing_server) example_data
        (response_with (Some example_data)) example_net)) = Some example_data
   \<and> Diagnostics (fst (DeviceResource_Delete (example_client failing_server) example_data
        (response_with (Some example_data)) example_net))
       = [ErrorDiagnostic ''Failed to delete device'' (APIErrorMessage 500 ''internal error'')]"
proof -
  let ?r = "example_client failing_server"
  let ?resp = "response_with (Some example_data)"
  let ?e = "APIErrorMessage 500 ''internal error''"
  have ok: "\<not> HasError (Diagnostics ?resp)"
    by (simp add: response_with_def)
  have id: "ValueString (DeviceModel_ID example_data) = ''D1''"
    "ValueString (DeviceModel_ID example_other) = ''D7''"
    by (simp_all add: example_data_def example_other_def)
  have c: "fst (CreateDevice ?r (Device_of_data example_data) example_net) = Inl ?e"
    by (simp add: client_defs example_client_def failing_server_def json_defs)
  have u: "fst (UpdateDevice ?r (ValueString (DeviceModel_ID example_other))
              (Device_of_data example_other) example_net) = Inl ?e"
    by (simp add: id client_defs example_client_def failing_server_def json_defs)
  have nf: "fst (UpdateDevice ?r (ValueString (DeviceModel_ID example_data))
              (Device_of_data example_data) example_net) = Inl ErrNotFound"
    by (simp add: id client_defs example_client_def failing_server_def json_defs)
  have rc: "fst (CreateDevice ?r (Device_of_data example_data)
          (snd (UpdateDevice ?r (ValueString (DeviceModel_ID example_data))
                 (Device_of_data example_data) example_net))) = Inl ?e"
    by (simp add: id client_defs example_client_def failing_server_def json_defs)
  have d: "fst (DeleteDevice ?r (ValueString (DeviceModel_ID example_data)) example_net) = Some ?e"
    by (simp add: id client_defs example_client_def failing_server_def json_defs)
  note main1 = failed_call_leaves_state [OF ok, of ?r example_data example_net]
  note main2 = failed_call_leaves_state [OF ok, of ?r example_other example_net]
  from main1 c have 1:
    "State (fst (DeviceResource_Create ?r example_data ?resp example_net)) = State ?resp
     \<and> Diagnostics (fst (DeviceResource_Create ?r example_data ?resp example_net)) =
          Diagnostics ?resp @ [ErrorDiagnostic ''Failed to create device'' ?e]"
    by blast
  from main2 u have 2:
    "State (fst (DeviceResource_Update ?r example_other ?resp example_net)) = State ?resp
     \<and> Diagnostics (fst (DeviceResource_Update ?r example_other ?resp example_net)) =
          Diagnostics ?resp @ [ErrorDiagnostic ''Failed to update device'' ?e]"
    by blast
  from main1 nf rc have 3:
    "State (fst (DeviceResource_Update ?r example_data ?resp example_net)) = State ?resp
     \<and> Diagnostics (fst (DeviceResource_Update ?r example_data ?resp example_net)) =
          Diagnostics ?resp @ [ErrorDiagnostic ''Failed to create device (after 404 on update)'' ?e]"
    by blast
  from main1 d have 4:
    "State (fst (DeviceResource_Delete ?r example_data ?resp example_net)) = State ?resp
     \<and> Diagnostics (fst (DeviceResource_Delete ?r example_data ?resp example_net)) =
          Diagnostics ?resp @ [ErrorDiagnostic ''Failed to delete device'' ?e]"
    by blast
  have r: "State ?resp = Some example_data" "Diagnostics ?resp = []"
    by (simp_all add: response_with_def)
  from ok c u nf rc d 1 2 3 4 show ?thesis
    unfolding id r by simp
qed

subsection \<open>Delete\<close>

lemma Site_Delete_fst:
  assumes "\<not> HasError (Diagnostics resp)"
  shows "fst (SiteResource_Delete r data resp n) =
     (case fst (DeleteSite r (ValueString (SiteModel_ID data)) n) of
        Some err \<Rightarrow> AddError ''Failed to delete site'' err resp
      | None \<Rightarrow> resp)"
  using assms
  by (cases "DeleteSite r (ValueString (SiteModel_ID data)) n")
     (simp add: SiteResource_Delete_def split: option.splits)

lemma HasError_append_error: "HasError (ds @ [ErrorDiagnostic s e])"
  by (induction ds rule: HasError.induct) simp_all

lemma delete_status:
  assumes "fst (HTTPClient c (newRequest c ''DELETE'' p None) (remote n)) = Response status respBody"
  shows "fst (doRequest c ''DELETE'' p None n) =
     (if status < 400 then Inr respBody
      else if status = 404 then Inl ErrNotFound
      else Inl (statusError status respBody))"
  using assms
  by (cases "HTTPClient c (newRequest c ''DELETE'' p None) (remote n)")
     (simp add: doRequest_def Let_def)

lemma DeleteDevice_status:
  assumes "fst (HTTPClient c (newRequest c ''DELETE'' (''/api/v1/devices/'' @ i) None) (remote n))
     = Response status respBody"
  shows "fst (DeleteDevice c i n) =
     (if status < 400 then None
      else if status = 404 then Some ErrNotFound
      else Some (statusError status respBody))"
  using delete_status [OF assms]
  by (cases "doRequest c ''DELETE'' (''/api/v1/devices/'' @ i) None n")
     (auto simp add: DeleteDevice_def split: sum.splits if_splits)

lemma DeleteSite_status:
  assumes "fst (HTTPClient c (newRequest c ''DELETE'' (''/api/v1/sites/'' @ i) None) (remote n))
     = Response status respBody"
  shows "fst (DeleteSite c i n) =
     (if status < 400 then None
      else if status = 404 then Some ErrNotFound
      else Some (statusError status respBody))"
  using delete_status [OF assms]
  by (cases "doRequest c ''DELETE'' (''/api/v1/sites/'' @ i) None n")
     (auto simp add: DeleteSite_def split: sum.splits if_splits)

text \<open>
  Claim C2, as amended. \<^verbatim>\<open>Delete\<close>, of a device or of a site, returns the response as it
  was handed in, with no diagnostic added, when the delete call returns no error. Every
  error of the delete call, \<open>ErrNotFound\<close> included, is reported as "Failed to delete
  device" (or site), and the state of the response stays as it was. The delete call
  returns no error for a status below 400, \<open>ErrNotFound\<close> for 404 and the status error
  for any other status.
\<close>

theorem delete_reports_every_error:
  assumes "\<not> HasError (Diagnostics resp)" and "\<not> HasError (Diagnostics sresp)"
  shows "(fst (DeleteDevice r (ValueString (DeviceModel_ID data)) n) = None \<longrightarrow>
            fst (DeviceResource_Delete r data resp n) = resp)
     \<and> (\<forall>err. fst (DeleteDevice r (ValueString (DeviceModel_ID data)) n) = Some err \<longrightarrow>
            State (fst (DeviceResource_Delete r data resp n)) = State resp
          \<and> Diagnostics (fst (DeviceResource_Delete r data resp n)) =
              Diagnostics resp @ [ErrorDiagnostic ''Failed to delete device'' err]
          \<and> HasError (Diagnostics (fst (DeviceResource_Delete r data resp n))))
     \<and> (\<forall>status respBody.
           fst (HTTPClient r (newRequest r ''DELETE'' (device_path data) None) (remote n))
             = Response status respBody \<longrightarrow>
           fst (DeleteDevice r (ValueString (DeviceModel_ID data)) n) =
             (if status < 400 then None
              else if status = 404 then Some ErrNotFound
              else Some (statusError status respBody)))
     \<and> (fst (DeleteSite r (ValueString (SiteModel_ID sdata)) n) = None \<longrightarrow>
            fst (SiteResource_Delete r sdata sresp n) = sresp)
     \<and> (\<forall>err. fst (DeleteSite r (ValueString (SiteModel_ID sdata)) n) = Some err \<longrightarrow>
            State (fst (SiteResource_Delete r sdata sresp n)) = State sresp
          \<and> Diagnostics (fst (SiteResource_Delete r sdata sresp n)) =
              Diagnostics sresp @ [ErrorDiagnostic ''Failed to delete site'' err]
          \<and> HasError (Diagnostics (fst (SiteResource_Delete r sdata sresp n))))
     \<and> (\<forall>status respBody.
           fst (HTTPClient r (newRequest r ''DELETE'' (site_path sdata) None) (remote n))
             = Response status respBody \<longrightarrow>
           fst (DeleteSite r (ValueString (SiteModel_ID sdata)) n) =
             (if status < 400 then None
              else if status = 404 then Some ErrNotFound
              else Some (statusError status respBody)))"
  using DeleteDevice_status [of r "ValueString (DeviceModel_ID data)" n]
    DeleteSite_status [of r "ValueString (SiteModel_ID sdata)" n]
  by (simp add: Delete_fst [OF assms(1)] Site_Delete_fst [OF assms(2)] HasError_append_error)

theorem delete_reports_every_error_witness:
  "\<not> HasError (Diagnostics (response_with (Some example_data)))
   \<and> \<not> HasError (Diagnostics (response_with (Some example_site)))
   \<and> fst (HTTPClient (example_client gone_server)
          (newRequest (example_client gone_server) ''DELETE'' ''/api/v1/devices/D1'' None)
          (remote example_net))
     = Response 404 (Valid (JObject [(''error'', JString ''device not found'')]))
   \<and> fst (DeleteDevice (example_client gone_server) ''D1'' example_net) = Some ErrNotFound
   \<and> State (fst (DeviceResource_Delete (example_client gone_server) example_data
          (response_with (Some example_data)) example_net)) = Some example_data
   \<and> Diagnostics (fst (DeviceResource_Delete (example_client gone_server) example_data
          (response_with (Some example_data)) example_net))
       = [ErrorDiagnostic ''Failed to delete device'' ErrNotFound]
   \<and> fst (DeleteSite (example_client gone_server) ''S1'' example_net) = Some ErrNotFound
   \<and> State (fst (SiteResource_Delete (example_client gone_server) example_site
          (response_with (Some example_site)) example_net)) = Some example_site
   \<and> Diagnostics (fst (SiteResource_Delete (example_client gone_server) example_site
          (response_with (Some example_site)) example_net))
       = [ErrorDiagnostic ''Failed to delete site'' ErrNotFound]
   \<and> fst (DeleteDevice (example_client example_server) ''D1'' example_net) = None
   \<and> fst (DeviceResource_Delete (example_client example_server) example_data
          (response_with (Some example_data)) example_net)
       = response_with (Some example_data)"
proof -
  let ?r = "example_client gone_server"
  let ?q = "example_client example_server"
  let ?resp = "response_with (Some example_data)"
  let ?sresp = "response_with (Some example_site)"
  have ok: "\<not> HasError (Diagnostics ?resp)" "\<not> HasError (Diagnostics ?sresp)"
    by (simp_all add: response_with_def)
  have id: "ValueString (DeviceModel_ID example_data) = ''D1''"
    "ValueString (SiteModel_ID example_site) = ''S1''"
    by (simp_all add: example_data_def example_site_def)
  have out: "fst (HTTPClient ?r (newRequest ?r ''DELETE'' (device_path example_data) None)
          (remote example_net))
     = Response 404 (Valid (JObject [(''error'', JString ''device not found'')]))"
    "fst (HTTPClient ?r (newRequest ?r ''DELETE'' (site_path example_site) None)
          (remote example_net))
     = Response 404 (Valid (JObject [(''error'', JString ''device not found'')]))"
    by (simp_all add: example_client_def gone_server_def)
  have out2: "fst (HTTPClient ?q (newRequest ?q ''DELETE'' (device_path example_data) None)
          (remote example_net)) = Response 204 (Invalid [])"
    by (simp add: example_client_def example_server_def newRequest_def)
  note main = delete_reports_every_error [OF ok, of ?r example_data example_net example_site]
  note main2 = delete_reports_every_error [OF ok, of ?q example_data example_net example_site]
  from main out have d: "fst (DeleteDevice ?r (ValueString (DeviceModel_ID example_data)) example_net)
      = Some ErrNotFound"
    "fst (DeleteSite ?r (ValueString (SiteModel_ID example_site)) example_net) = Some ErrNotFound"
    by auto
  from main d have 1:
    "State (fst (DeviceResource_Delete ?r example_data ?resp example_net)) = State ?resp
     \<and> Diagnostics (fst (DeviceResource_Delete ?r example_data ?resp example_net)) =
          Diagnostics ?resp @ [ErrorDiagnostic ''Failed to delete device'' ErrNotFound]"
    "State (fst (SiteResource_Delete ?r example_site ?sresp example_net)) = State ?sresp
     \<and> Diagnostics (fst (SiteResource_Delete ?r example_site ?sresp example_net)) =
          Diagnostics ?sresp @ [ErrorDiagnostic ''Failed to delete site'' ErrNotFound]"
    by blast+
  from main2 out2 have d2:
    "fst (DeleteDevice ?q (ValueString (DeviceModel_ID example_data)) example_net) = None"
    by auto
  with main2 have 2: "fst (DeviceResource_Delete ?q example_data ?resp example_net) = ?resp"
    by blast
  from ok out(1) d d2 1 2 show ?thesis
    unfolding id by (simp add: response_with_def)
qed

text \<open>
  The claim as stated fails: the delete below is answered with status 404, and
  \<^verbatim>\<open>Delete\<close> reports an error.
\<close>

theorem delete_not_found_counterexample:
  "fst (HTTPClient (example_client gone_server)
          (newRequest (example_client gone_server) ''DELETE'' (device_path example_data) None)
          (remote example_net))
     = Response 404 (Valid (JObject [(''error'', JString ''device not found'')]))
   \<and> fst (DeviceResource_Delete (example_client gone_server) example_data
          (response_with (Some example_data)) example_net)
     = \<lparr>State = Some example_data,
        Diagnostics = [ErrorDiagnostic ''Failed to delete device'' ErrNotFound]\<rparr>
   \<and> HasError (Diagnostics (fst (DeviceResource_Delete (example_client gone_server) example_data
          (response_with (Some example_data)) example_net)))"
  by (simp add: DeviceResource_Delete_def client_defs example_defs gone_server_def AddError_def)

subsection \<open>The state after a create\<close>

text \<open>
  Claim C4, as amended. After a successful create the stored state holds the id and
  \<^verbatim>\<open>inserted_at\<close> of the response, the \<^verbatim>\<open>site_id\<close> and \<^verbatim>\<open>organization_id\<close> of the response
  (null when absent), and the name, \<^verbatim>\<open>monitoring_enabled\<close> and \<^verbatim>\<open>snmp_enabled\<close> of the
  response when it holds them; \<^verbatim>\<open>ip_address\<close>, description, \<^verbatim>\<open>snmp_version\<close>, \<^verbatim>\<open>snmp_port\<close>
  and the six SNMPv3 fields keep their planned values whatever the response holds.
\<close>

theorem create_keeps_planned_fields:
  assumes "\<not> HasError (Diagnostics resp)"
    and "fst (CreateDevice r (Device_of_data data) n) = Inr created"
  shows "\<exists>s. fst (DeviceResource_Create r data resp n) = resp\<lparr>State := Some s\<rparr>
     \<and> DeviceModel_ID s = StringValue (Device_ID created)
     \<and> DeviceModel_InsertedAt s = StringValue (Device_InsertedAt created)
     \<and> DeviceModel_SiteID s = String_or_null (Device_SiteID created)
     \<and> DeviceModel_OrganizationID s = String_or_null (Device_OrganizationID created)
     \<and> DeviceModel_Name s =
         (case Device_Name created of Some v \<Rightarrow> StringValue v | None \<Rightarrow> DeviceModel_Name data)
     \<and> DeviceModel_MonitoringEnabled s =
         (case Device_MonitoringEnabled created of
            Some v \<Rightarrow> BoolValue v | None \<Rightarrow> DeviceModel_MonitoringEnabled data)
     \<and> DeviceModel_SNMPEnabled s =
         (case Device_SNMPEnabled created of
            Some v \<Rightarrow> BoolValue v | None \<Rightarrow> DeviceModel_SNMPEnabled data)
     \<and> DeviceModel_IPAddress s = DeviceModel_IPAddress data
     \<and> DeviceModel_Description s = DeviceModel_Description data
     \<and> DeviceModel_SNMPVersion s = DeviceModel_SNMPVersion data
     \<and> DeviceModel_SNMPPort s = DeviceModel_SNMPPort data
     \<and> DeviceModel_SNMPv3SecurityLevel s = DeviceModel_SNMPv3SecurityLevel data
     \<and> DeviceModel_SNMPv3Username s = DeviceModel_SNMPv3Username data
     \<and> DeviceModel_SNMPv3AuthProtocol s = DeviceModel_SNMPv3AuthProtocol data
     \<and> DeviceModel_SNMPv3AuthPassword s = DeviceModel_SNMPv3AuthPassword data
     \<and> DeviceModel_SNMPv3PrivProtocol s = DeviceModel_SNMPv3PrivProtocol data
     \<and> DeviceModel_SNMPv3PrivPassword s = DeviceModel_SNMPv3PrivPassword data"
proof -
  from assms have "fst (DeviceResource_Create r data resp n) =
      resp\<lparr>State := Some (Create_data data created)\<rparr>"
    by (simp add: Create_fst)
  then show ?thesis
    by (intro exI [of _ "Create_data data created"])
       (simp add: Create_data_def String_if_set_def Bool_if_set_def)
qed

theorem create_keeps_planned_fields_witness:
  "\<not> HasError (Diagnostics (response_with None :: DeviceResourceModel response))
   \<and> fst (CreateDevice (example_client example_server) (Device_of_data example_plan) example_net)
     = Inr (zero_Device\<lparr>Device_ID := ''D1'', Device_SiteID := Some ''site-123'',
          Device_Name := Some ''Test Device'', Device_IPAddress := ''10.0.0.9'',
          Device_Description := Some ''set by the server'',
          Device_MonitoringEnabled := Some False,
          Device_SNMPVersion := Some ''3'', Device_SNMPPort := Some 162,
          Device_SNMPv3Username := Some ''operator'',
          Device_InsertedAt := ''2024-01-01T00:00:00Z''\<rparr>)
   \<and> (\<exists>s. State (fst (DeviceResource_Create (example_client example_server) example_plan
          (response_with None) example_net)) = Some s
        \<and> DeviceModel_ID s = StringValue ''D1''
        \<and> DeviceModel_MonitoringEnabled s = BoolValue False
        \<and> DeviceModel_SNMPEnabled s = BoolValue True
        \<and> DeviceModel_SNMPPort s = Int64Value 161
        \<and> DeviceModel_Description s = StringNull)"
proof -
  let ?r = "example_client example_server"
  let ?created = "zero_Device\<lparr>Device_ID := ''D1'', Device_SiteID := Some ''site-123'',
          Device_Name := Some ''Test Device'', Device_IPAddress := ''10.0.0.9'',
          Device_Description := Some ''set by the server'',
          Device_MonitoringEnabled := Some False,
          Device_SNMPVersion := Some ''3'', Device_SNMPPort := Some 162,
          Device_SNMPv3Username := Some ''operator'',
          Device_InsertedAt := ''2024-01-01T00:00:00Z''\<rparr>"
  have ok: "\<not> HasError (Diagnostics (response_with None :: DeviceResourceModel response))"
    by (simp add: response_with_def)
  have c: "fst (CreateDevice ?r (Device_of_data example_plan) example_net) = Inr ?created"
    by (simp add: client_defs json_defs example_client_def example_server_def)
  from create_keeps_planned_fields [OF ok c] obtain s where
    "fst (DeviceResource_Create ?r example_plan (response_with None) example_net)
       = (response_with None)\<lparr>State := Some s\<rparr>"
    "DeviceModel_ID s = StringValue (Device_ID ?created)"
    "DeviceModel_MonitoringEnabled s =
         (case Device_MonitoringEnabled ?created of
            Some v \<Rightarrow> BoolValue v | None \<Rightarrow> DeviceModel_MonitoringEnabled example_plan)"
    "DeviceModel_SNMPEnabled s =
         (case Device_SNMPEnabled ?created of
            Some v \<Rightarrow> BoolValue v | None \<Rightarrow> DeviceModel_SNMPEnabled example_plan)"
    "DeviceModel_SNMPPort s = DeviceModel_SNMPPort example_plan"
    "DeviceModel_Description s = DeviceModel_Description example_plan"
    by blast
  then have "State (fst (DeviceResource_Create ?r example_plan (response_with None) example_net)) = Some s
        \<and> DeviceModel_ID s = StringValue ''D1''
        \<and> DeviceModel_MonitoringEnabled s = BoolValue False
        \<and> DeviceModel_SNMPEnabled s = BoolValue True
        \<and> DeviceModel_SNMPPort s = Int64Value 161
        \<and> DeviceModel_Description s = StringNull"
    by (simp add: zero_Device_def example_plan_def example_data_def)
  with ok c show ?thesis by blast
qed

text \<open>
  The claim as stated fails: the response below holds another address, a description,
  version 3, port 162 and an SNMPv3 user, and the state after the create holds none of
  them.
\<close>

theorem create_server_view_counterexample:
  "fst (CreateDevice (example_client example_server) (Device_of_data example_plan) example_net)
     = Inr (zero_Device\<lparr>Device_ID := ''D1'', Device_SiteID := Some ''site-123'',
          Device_Name := Some ''Test Device'', Device_IPAddress := ''10.0.0.9'',
          Device_Description := Some ''set by the server'',
          Device_MonitoringEnabled := Some False,
          Device_SNMPVersion := Some ''3'', Device_SNMPPort := Some 162,
          Device_SNMPv3Username := Some ''operator'',
          Device_InsertedAt := ''2024-01-01T00:00:00Z''\<rparr>)
   \<and> State (fst (DeviceResource_Create (example_client example_server) example_plan
          (response_with None) example_net))
     = Some (example_data\<lparr>DeviceModel_MonitoringEnabled := BoolValue False\<rparr>)
   \<and> DeviceModel_SNMPPort example_data = Int64Value 161
   \<and> DeviceModel_SNMPVersion example_data = StringValue ''2c''
   \<and> DeviceModel_Description example_data = StringNull
   \<and> DeviceModel_IPAddress example_data = StringValue ''192.168.1.2''
   \<and> DeviceModel_SNMPv3Username example_data = StringNull"
  by (simp add: DeviceResource_Create_def Create_data_def client_defs json_defs data_defs
        example_defs example_plan_def example_server_def)


subsection \<open>The state after a read\<close>

text \<open>
  Claim C5, as amended. After a successful read every field of the stored state but the
  id is taken from the response: a string of the response overwrites, an absent pointer
  clears the field to null, except that \<^verbatim>\<open>monitoring_enabled\<close>, \<^verbatim>\<open>snmp_enabled\<close>,
  \<^verbatim>\<open>snmp_version\<close> and \<^verbatim>\<open>snmp_port\<close> of a device keep their stored values when the response
  leaves them out. For a site every field but the id is overwritten or cleared.
\<close>

theorem read_overwrites_or_keeps:
  assumes "\<not> HasError (Diagnostics resp)" and "\<not> HasError (Diagnostics sresp)"
  shows "(\<forall>device. fst (GetDevice r (ValueString (DeviceModel_ID data)) n) = Inr device \<longrightarrow>
      (\<exists>s. fst (DeviceResource_Read r data resp n) = resp\<lparr>State := Some s\<rparr>
         \<and> DeviceModel_ID s = DeviceModel_ID data
         \<and> DeviceModel_SiteID s = String_or_null (Device_SiteID device)
         \<and> DeviceModel_OrganizationID s = String_or_null (Device_OrganizationID device)
         \<and> DeviceModel_IPAddress s = StringValue (Device_IPAddress device)
         \<and> DeviceModel_Name s = String_or_null (Device_Name device)
         \<and> DeviceModel_InsertedAt s = StringValue (Device_InsertedAt device)
         \<and> DeviceModel_Description s = String_or_null (Device_Description device)
         \<and> DeviceModel_MonitoringEnabled s =
             (case Device_MonitoringEnabled device of
                Some v \<Rightarrow> BoolValue v | None \<Rightarrow> DeviceModel_MonitoringEnabled data)
         \<and> DeviceModel_SNMPEnabled s =
             (case Device_SNMPEnabled device of
                Some v \<Rightarrow> BoolValue v | None \<Rightarrow> DeviceModel_SNMPEnabled data)
         \<and> DeviceModel_SNMPVersion s =
             (case Device_SNMPVersion device of
                Some v \<Rightarrow> StringValue v | None \<Rightarrow> DeviceModel_SNMPVersion data)
         \<and> DeviceModel_SNMPPort s =
             (case Device_SNMPPort device of
                Some v \<Rightarrow> Int64Value v | None \<Rightarrow> DeviceModel_SNMPPort data)
         \<and> DeviceModel_SNMPv3SecurityLevel s = String_or_null (Device_SNMPv3SecurityLevel device)
         \<and> DeviceModel_SNMPv3Username s = String_or_null (Device_SNMPv3Username device)
         \<and> DeviceModel_SNMPv3AuthProtocol s = String_or_null (Device_SNMPv3AuthProtocol device)
         \<and> DeviceModel_SNMPv3AuthPassword s = String_or_null (Device_SNMPv3AuthPassword device)
         \<and> DeviceModel_SNMPv3PrivProtocol s = String_or_null (Device_SNMPv3PrivProtocol device)
         \<and> DeviceModel_SNMPv3PrivPassword s = String_or_null (Device_SNMPv3PrivPassword device)))
   \<and> (\<forall>site. fst (GetSite r (ValueString (SiteModel_ID sdata)) n) = Inr site \<longrightarrow>
      (\<exists>s. fst (SiteResource_Read r sdata sresp n) = sresp\<lparr>State := Some s\<rparr>
         \<and> SiteModel_ID s = SiteModel_ID sdata
         \<and> SiteModel_Name s = StringValue (Site_Name site)
         \<and> SiteModel_InsertedAt s = StringValue (Site_InsertedAt site)
         \<and> SiteModel_Location s = String_or_null (Site_Location site)
         \<and> SiteModel_SNMPCommunity s = String_or_null (Site_SNMPCommunity site)))"
proof (intro conjI allI impI)
  fix device
  assume "fst (GetDevice r (ValueString (DeviceModel_ID data)) n) = Inr device"
  with assms(1) have "fst (DeviceResource_Read r data resp n) =
      resp\<lparr>State := Some (Read_data data device)\<rparr>"
    by (simp add: Read_fst)
  then show "\<exists>s. fst (DeviceResource_Read r data resp n) = resp\<lparr>State := Some s\<rparr>
         \<and> DeviceModel_ID s = DeviceModel_ID data
         \<and> DeviceModel_SiteID s = String_or_null (Device_SiteID device)
         \<and> DeviceModel_OrganizationID s = String_or_null (Device_OrganizationID device)
         \<and> DeviceModel_IPAddress s = StringValue (Device_IPAddress device)
         \<and> DeviceModel_Name s = String_or_null (Device_Name device)
         \<and> DeviceModel_InsertedAt s = StringValue (Device_InsertedAt device)
         \<and> DeviceModel_Description s = String_or_null (Device_Description device)
         \<and> DeviceModel_MonitoringEnabled s =
             (case Device_MonitoringEnabled device of
                Some v \<Rightarrow> BoolValue v | None \<Rightarrow> DeviceModel_MonitoringEnabled data)
         \<and> DeviceModel_SNMPEnabled s =
             (case Device_SNMPEnabled device of
                Some v \<Rightarrow> BoolValue v | None \<Rightarrow> DeviceModel_SNMPEnabled data)
         \<and> DeviceModel_SNMPVersion s =
             (case Device_SNMPVersion device of
                Some v \<Rightarrow> StringValue v | None \<Rightarrow> DeviceModel_SNMPVersion data)
         \<and> DeviceModel_SNMPPort s =
             (case Device_SNMPPort device of
                Some v \<Rightarrow> Int64Value v | None \<Rightarrow> DeviceModel_SNMPPort data)
         \<and> DeviceModel_SNMPv3SecurityLevel s = String_or_null (Device_SNMPv3SecurityLevel device)
         \<and> DeviceModel_SNMPv3Username s = String_or_null (Device_SNMPv3Username device)
         \<and> DeviceModel_SNMPv3AuthProtocol s = String_or_null (Device_SNMPv3AuthProtocol device)
         \<and> DeviceModel_SNMPv3AuthPassword s = String_or_null (Device_SNMPv3AuthPassword device)
         \<and> DeviceModel_SNMPv3PrivProtocol s = String_or_null (Device_SNMPv3PrivProtocol device)
         \<and> DeviceModel_SNMPv3PrivPassword s = String_or_null (Device_SNMPv3PrivPassword device)"
    by (intro exI [of _ "Read_data data device"])
       (simp add: Read_data_def String_if_set_def Bool_if_set_def Int64_if_set_def)
next
  fix site
  assume "fst (GetSite r (ValueString (SiteModel_ID sdata)) n) = Inr site"
  with assms(2) have "fst (SiteResource_Read r sdata sresp n) =
      sresp\<lparr>State := Some (Site_Read_data sdata site)\<rparr>"
    by (simp add: Site_Read_fst)
  then show "\<exists>s. fst (SiteResource_Read r sdata sresp n) = sresp\<lparr>State := Some s\<rparr>
         \<and> SiteModel_ID s = SiteModel_ID sdata
         \<and> SiteModel_Name s = StringValue (Site_Name site)
         \<and> SiteModel_InsertedAt s = StringValue (Site_InsertedAt site)
         \<and> SiteModel_Location s = String_or_null (Site_Location site)
         \<and> SiteModel_SNMPCommunity s = String_or_null (Site_SNMPCommunity site)"
    by (intro exI [of _ "Site_Read_data sdata site"]) (simp add: Site_Read_data_def)
qed

text \<open>
  The claim as stated fails: the response below leaves out the four fields, and the state
  after the read still holds their stored values.
\<close>

theorem read_clears_omitted_counterexample:
  "fst (GetDevice (example_client example_server) ''D1'' example_net)
     = Inr (zero_Device\<lparr>Device_ID := ''D1'', Device_SiteID := Some ''site-123'',
          Device_Name := Some ''Renamed Device'', Device_IPAddress := ''192.168.1.2'',
          Device_InsertedAt := ''2024-01-01T00:00:00Z''\<rparr>)
   \<and> Device_SNMPPort zero_Device = None
   \<and> Device_SNMPVersion zero_Device = None
   \<and> Device_MonitoringEnabled zero_Device = None
   \<and> Device_SNMPEnabled zero_Device = None
   \<and> State (fst (DeviceResource_Read (example_client example_server) example_data
          (response_with (Some example_data)) example_net))
     = Some (example_data\<lparr>DeviceModel_Name := StringValue ''Renamed Device''\<rparr>)
   \<and> DeviceModel_SNMPPort example_data = Int64Value 161
   \<and> DeviceModel_SNMPVersion example_data = StringValue ''2c''
   \<and> DeviceModel_MonitoringEnabled example_data = BoolValue True
   \<and> DeviceModel_SNMPEnabled example_data = BoolValue True"
  by (simp add: DeviceResource_Read_def Read_data_def client_defs json_defs data_defs
        example_defs example_server_def Is_ErrNotFound_def)

theorem read_overwrites_or_keeps_witness:
  "\<not> HasError (Diagnostics (response_with (Some example_data)))
   \<and> \<not> HasError (Diagnostics (response_with (Some example_site)))
   \<and> fst (GetDevice (example_client example_server) ''D1'' example_net)
     = Inr (zero_Device\<lparr>Device_ID := ''D1'', Device_SiteID := Some ''site-123'',
          Device_Name := Some ''Renamed Device'', Device_IPAddress := ''192.168.1.2'',
          Device_InsertedAt := ''2024-01-01T00:00:00Z''\<rparr>)
   \<and> (\<exists>s. State (fst (DeviceResource_Read (example_client example_server) example_data
          (response_with (Some example_data)) example_net)) = Some s
        \<and> DeviceModel_ID s = StringValue ''D1''
        \<and> DeviceModel_Name s = StringValue ''Renamed Device''
        \<and> DeviceModel_Description s = StringNull
        \<and> DeviceModel_SNMPPort s = Int64Value 161)
   \<and> fst (GetSite (example_client site_server) ''S1'' example_net)
     = Inr (zero_Site\<lparr>Site_ID := ''S1'', Site_Name := ''Head Office'',
          Site_SNMPCommunity := Some ''public'', Site_InsertedAt := ''2024-01-01T00:00:00Z''\<rparr>)
   \<and> (\<exists>s. State (fst (SiteResource_Read (example_client site_server) example_site
          (response_with (Some example_site)) example_net)) = Some s
        \<and> SiteModel_ID s = StringValue ''S1''
        \<and> SiteModel_Name s = StringValue ''Head Office''
        \<and> SiteModel_Location s = StringNull
        \<and> SiteModel_SNMPCommunity s = StringValue ''public'')"
proof -
  let ?r = "example_client example_server"
  let ?device = "zero_Device\<lparr>Device_ID := ''D1'', Device_SiteID := Some ''site-123'',
          Device_Name := Some ''Renamed Device'', Device_IPAddress := ''192.168.1.2'',
          Device_InsertedAt := ''2024-01-01T00:00:00Z''\<rparr>"
  let ?site = "zero_Site\<lparr>Site_ID := ''S1'', Site_Name := ''Head Office'',
          Site_SNMPCommunity := Some ''public'', Site_InsertedAt := ''2024-01-01T00:00:00Z''\<rparr>"
  have ok: "\<not> HasError (Diagnostics (response_with (Some example_data)))"
    "\<not> HasError (Diagnostics (response_with (Some example_site)))"
    by (simp_all add: response_with_def)
  have id: "ValueString (DeviceModel_ID example_data) = ''D1''"
    "ValueString (SiteModel_ID example_site) = ''S1''"
    by (simp_all add: example_data_def example_site_def)
  have g: "fst (GetDevice ?r (ValueString (DeviceModel_ID example_data)) example_net) = Inr ?device"
    by (simp add: id client_defs json_defs example_client_def example_server_def)
  have gs: "fst (GetSite (example_client site_server) (ValueString (SiteModel_ID example_site))
      example_net) = Inr ?site"
    by (simp add: id client_defs json_defs example_client_def site_server_def)
  note main = read_overwrites_or_keeps [OF ok, of ?r example_data example_net]
  note smain = read_overwrites_or_keeps [OF ok, of "example_client site_server" _ example_net example_site]
  from main g obtain s where
    "fst (DeviceResource_Read ?r example_data (response_with (Some example_data)) example_net)
       = (response_with (Some example_data))\<lparr>State := Some s\<rparr>"
    "DeviceModel_ID s = DeviceModel_ID example_data"
    "DeviceModel_Name s = String_or_null (Device_Name ?device)"
    "DeviceModel_Description s = String_or_null (Device_Description ?device)"
    "DeviceModel_SNMPPort s =
             (case Device_SNMPPort ?device of
                Some v \<Rightarrow> Int64Value v | None \<Rightarrow> DeviceModel_SNMPPort example_data)"
    by blast
  then have 1: "State (fst (DeviceResource_Read ?r example_data
          (response_with (Some example_data)) example_net)) = Some s
        \<and> DeviceModel_ID s = StringValue ''D1''
        \<and> DeviceModel_Name s = StringValue ''Renamed Device''
        \<and> DeviceModel_Description s = StringNull
        \<and> DeviceModel_SNMPPort s = Int64Value 161"
    by (simp add: zero_Device_def example_data_def String_or_null_def)
  from smain gs obtain t where
    "fst (SiteResource_Read (example_client site_server) example_site
        (response_with (Some example_site)) example_net)
       = (response_with (Some example_site))\<lparr>State := Some t\<rparr>"
    "SiteModel_ID t = SiteModel_ID example_site"
    "SiteModel_Name t = StringValue (Site_Name ?site)"
    "SiteModel_Location t = String_or_null (Site_Location ?site)"
    "SiteModel_SNMPCommunity t = String_or_null (Site_SNMPCommunity ?site)"
    by blast
  then have 2: "State (fst (SiteResource_Read (example_client site_server) example_site
          (response_with (Some example_site)) example_net)) = Some t
        \<and> SiteModel_ID t = StringValue ''S1''
        \<and> SiteModel_Name t = StringValue ''Head Office''
        \<and> SiteModel_Location t = StringNull
        \<and> SiteModel_SNMPCommunity t = StringValue ''public''"
    by (simp add: zero_Site_def example_site_def String_or_null_def)
  from ok g gs 1 2 show ?thesis
    unfolding id by blast
qed

subsection \<open>Refresh twice\<close>

lemma doRequest_fst_cong:
  assumes "fst (HTTPClient c (newRequest c m p b) (remote n1)) =
           fst (HTTPClient c (newRequest c m p b) (remote n))"
  shows "fst (doRequest c m p b n1) = fst (doRequest c m p b n)"
  using assms
  by (cases "HTTPClient c (newRequest c m p b) (remote n1)";
      cases "HTTPClient c (newRequest c m p b) (remote n)")
     (simp add: doRequest_def Let_def split: outcome.splits)

lemma device_result_fst: "fst res = fst res' \<Longrightarrow> fst (device_result res) = fst (device_result res')"
  by (cases res; cases res') (simp add: device_result_def split: sum.splits option.splits)

lemma site_result_fst: "fst res = fst res' \<Longrightarrow> fst (site_result res) = fst (site_result res')"
  by (cases res; cases res') (simp add: site_result_def split: sum.splits option.splits)

lemma GetDevice_fst_cong:
  assumes "fst (HTTPClient c (newRequest c ''GET'' (''/api/v1/devices/'' @ i) None) (remote n1)) =
           fst (HTTPClient c (newRequest c ''GET'' (''/api/v1/devices/'' @ i) None) (remote n))"
  shows "fst (GetDevice c i n1) = fst (GetDevice c i n)"
  unfolding GetDevice_def by (intro device_result_fst doRequest_fst_cong assms)

lemma GetSite_fst_cong:
  assumes "fst (HTTPClient c (newRequest c ''GET'' (''/api/v1/sites/'' @ i) None) (remote n1)) =
           fst (HTTPClient c (newRequest c ''GET'' (''/api/v1/sites/'' @ i) None) (remote n))"
  shows "fst (GetSite c i n1) = fst (GetSite c i n)"
  unfolding GetSite_def by (intro site_result_fst doRequest_fst_cong assms)

lemma Read_data_idem: "Read_data (Read_data data device) device = Read_data data device"
  by (simp add: Read_data_def String_if_set_def Bool_if_set_def Int64_if_set_def
        split: option.splits)

lemma Site_Read_data_idem: "Site_Read_data (Site_Read_data data site) site = Site_Read_data data site"
  by (simp add: Site_Read_data_def)

lemma Read_data_ID [simp]: "DeviceModel_ID (Read_data data device) = DeviceModel_ID data"
  by (simp add: Read_data_def)

lemma Site_Read_data_ID [simp]: "SiteModel_ID (Site_Read_data data site) = SiteModel_ID data"
  by (simp add: Site_Read_data_def)

lemma response_with_simps [simp]:
  "State (response_with st) = st" "Diagnostics (response_with st) = []"
  by (simp_all add: response_with_def)

lemma Device_Refresh_fst:
  "fst (Device_Refresh r data n) =
     (case fst (GetDevice r (ValueString (DeviceModel_ID data)) n) of
        Inl err \<Rightarrow> if err = ErrNotFound then None else Some data
      | Inr device \<Rightarrow> Some (Read_data data device))"
proof -
  have "fst (Device_Refresh r data n) =
      State (fst (DeviceResource_Read r data (response_with (Some data)) n))"
    by (simp add: Device_Refresh_def split: prod.splits)
  then show ?thesis
    by (simp add: Read_fst split: sum.splits)
qed

lemma Site_Refresh_fst:
  "fst (Site_Refresh r data n) =
     (case fst (GetSite r (ValueString (SiteModel_ID data)) n) of
        Inl err \<Rightarrow> if err = ErrNotFound then None else Some data
      | Inr site \<Rightarrow> Some (Site_Read_data data site))"
proof -
  have "fst (Site_Refresh r data n) =
      State (fst (SiteResource_Read r data (response_with (Some data)) n))"
    by (simp add: Site_Refresh_def split: prod.splits)
  then show ?thesis
    by (simp add: Site_Read_fst split: sum.splits)
qed

text \<open>
  Claim C8. The function that merges a read response into the stored data is idempotent,
  for devices and for sites. Hence, when a refresh leaves a state and the remote system
  answers the same read request as it did the first time, a second refresh leaves the
  same state again.
\<close>

theorem refresh_idempotent:
  "Read_data (Read_data data device) device = Read_data data device
   \<and> Site_Read_data (Site_Read_data sdata site) site = Site_Read_data sdata site
   \<and> (\<forall>data1 n1.
         Device_Refresh r data n = (Some data1, n1)
       \<and> fst (HTTPClient r (newRequest r ''GET'' (device_path data) None) (remote n1))
         = fst (HTTPClient r (newRequest r ''GET'' (device_path data) None) (remote n))
       \<longrightarrow> fst (Device_Refresh r data1 n1) = Some data1)
   \<and> (\<forall>sdata1 n1.
         Site_Refresh r sdata n = (Some sdata1, n1)
       \<and> fst (HTTPClient r (newRequest r ''GET'' (site_path sdata) None) (remote n1))
         = fst (HTTPClient r (newRequest r ''GET'' (site_path sdata) None) (remote n))
       \<longrightarrow> fst (Site_Refresh r sdata1 n1) = Some sdata1)"
proof (intro conjI allI impI)
  show "Read_data (Read_data data device) device = Read_data data device"
    by (rule Read_data_idem)
  show "Site_Read_data (Site_Read_data sdata site) site = Site_Read_data sdata site"
    by (rule Site_Read_data_idem)
next
  fix data1 n1
  assume a: "Device_Refresh r data n = (Some data1, n1)
       \<and> fst (HTTPClient r (newRequest r ''GET'' (device_path data) None) (remote n1))
         = fst (HTTPClient r (newRequest r ''GET'' (device_path data) None) (remote n))"
  let ?g = "fst (GetDevice r (ValueString (DeviceModel_ID data)) n)"
  from a have first: "fst (Device_Refresh r data n) = Some data1"
    by simp
  from a have same: "fst (GetDevice r (ValueString (DeviceModel_ID data)) n1) = ?g"
    by (intro GetDevice_fst_cong) simp
  show "fst (Device_Refresh r data1 n1) = Some data1"
  proof (cases ?g)
    case (Inl err)
    with first have "data1 = data" "err \<noteq> ErrNotFound"
      by (auto simp add: Device_Refresh_fst split: if_splits)
    with Inl same show ?thesis
      by (simp add: Device_Refresh_fst)
  next
    case (Inr dev)
    with first have "data1 = Read_data data dev"
      by (simp add: Device_Refresh_fst)
    with Inr same show ?thesis
      by (simp add: Device_Refresh_fst Read_data_idem)
  qed
next
  fix sdata1 n1
  assume a: "Site_Refresh r sdata n = (Some sdata1, n1)
       \<and> fst (HTTPClient r (newRequest r ''GET'' (site_path sdata) None) (remote n1))
         = fst (HTTPClient r (newRequest r ''GET'' (site_path sdata) None) (remote n))"
  let ?g = "fst (GetSite r (ValueString (SiteModel_ID sdata)) n)"
  from a have first: "fst (Site_Refresh r sdata n) = Some sdata1"
    by simp
  from a have same: "fst (GetSite r (ValueString (SiteModel_ID sdata)) n1) = ?g"
    by (intro GetSite_fst_cong) simp
  show "fst (Site_Refresh r sdata1 n1) = Some sdata1"
  proof (cases ?g)
    case (Inl err)
    with first have "sdata1 = sdata" "err \<noteq> ErrNotFound"
      by (auto simp add: Site_Refresh_fst split: if_splits)
    with Inl same show ?thesis
      by (simp add: Site_Refresh_fst)
  next
    case (Inr st)
    with first have "sdata1 = Site_Read_data sdata st"
      by (simp add: Site_Refresh_fst)
    with Inr same show ?thesis
      by (simp add: Site_Refresh_fst Site_Read_data_idem)
  qed
qed

theorem refresh_idempotent_witness:
  "fst (Device_Refresh (example_client example_server) example_data example_net)
     = Some (example_data\<lparr>DeviceModel_Name := StringValue ''Renamed Device''\<rparr>)
   \<and> fst (Device_Refresh (example_client example_server)
          (example_data\<lparr>DeviceModel_Name := StringValue ''Renamed Device''\<rparr>)
          (snd (Device_Refresh (example_client example_server) example_data example_net)))
     = Some (example_data\<lparr>DeviceModel_Name := StringValue ''Renamed Device''\<rparr>)
   \<and> fst (Site_Refresh (example_client site_server) example_site example_net)
     = Some (example_site\<lparr>SiteModel_Name := StringValue ''Head Office'',
          SiteModel_Location := StringNull, SiteModel_SNMPCommunity := StringValue ''public''\<rparr>)
   \<and> fst (Site_Refresh (example_client site_server)
          (example_site\<lparr>SiteModel_Name := StringValue ''Head Office'',
             SiteModel_Location := StringNull, SiteModel_SNMPCommunity := StringValue ''public''\<rparr>)
          (snd (Site_Refresh (example_client site_server) example_site example_net)))
     = Some (example_site\<lparr>SiteModel_Name := StringValue ''Head Office'',
          SiteModel_Location := StringNull, SiteModel_SNMPCommunity := StringValue ''public''\<rparr>)"
proof -
  let ?r = "example_client example_server"
  let ?d1 = "example_data\<lparr>DeviceModel_Name := StringValue ''Renamed Device''\<rparr>"
  let ?n1 = "snd (Device_Refresh ?r example_data example_net)"
  let ?rs = "example_client site_server"
  let ?s1 = "example_site\<lparr>SiteModel_Name := StringValue ''Head Office'',
          SiteModel_Location := StringNull, SiteModel_SNMPCommunity := StringValue ''public''\<rparr>"
  let ?m1 = "snd (Site_Refresh ?rs example_site example_net)"
  have 1: "fst (Device_Refresh ?r example_data example_net) = Some ?d1"
    by (simp add: Device_Refresh_fst Read_data_def client_defs json_defs data_defs
          example_defs example_server_def)
  then have p1: "Device_Refresh ?r example_data example_net = (Some ?d1, ?n1)"
    by (simp add: prod_eq_iff)
  have f1: "fst (HTTPClient ?r (newRequest ?r ''GET'' (device_path example_data) None) (remote ?n1))
         = fst (HTTPClient ?r (newRequest ?r ''GET'' (device_path example_data) None)
             (remote example_net))"
    by (simp add: example_client_def)
  have 2: "fst (Site_Refresh ?rs example_site example_net) = Some ?s1"
    by (simp add: Site_Refresh_fst Site_Read_data_def client_defs json_defs data_defs
          example_defs example_site_def site_server_def)
  then have p2: "Site_Refresh ?rs example_site example_net = (Some ?s1, ?m1)"
    by (simp add: prod_eq_iff)
  have f2: "fst (HTTPClient ?rs (newRequest ?rs ''GET'' (site_path example_site) None) (remote ?m1))
         = fst (HTTPClient ?rs (newRequest ?rs ''GET'' (site_path example_site) None)
             (remote example_net))"
    by (simp add: example_client_def)
  from refresh_idempotent [of example_data _ _ _ ?r example_net] p1 f1
  have 3: "fst (Device_Refresh ?r ?d1 ?n1) = Some ?d1"
    by blast
  from refresh_idempotent [of _ _ example_site _ ?rs example_net] p2 f2
  have 4: "fst (Site_Refresh ?rs ?s1 ?m1) = Some ?s1"
    by blast
  from 1 2 3 4 show ?thesis by blast
qed

subsection \<open>The schema's defaults\<close>

lemma attribute_simps:
  "attribute ''id'' = StringAttribute\<lparr>Computed := True, PlanModifiers := [UseStateForUnknown]\<rparr>"
  "attribute ''site_id'' = StringAttribute\<lparr>Optional := True, Computed := True,
        PlanModifiers := [RequiresReplace]\<rparr>"
  "attribute ''organization_id'' = StringAttribute\<lparr>Optional := True, Computed := True,
        PlanModifiers := [RequiresReplace]\<rparr>"
  "attribute ''name'' = StringAttribute\<lparr>Optional := True, Computed := True\<rparr>"
  "attribute ''ip_address'' = StringAttribute\<lparr>Required := True\<rparr>"
  "attribute ''description'' = StringAttribute\<lparr>Optional := True\<rparr>"
  "attribute ''monitoring_enabled'' = BoolAttribute\<lparr>Optional := True, Computed := True,
        Default := Some (StaticBool True)\<rparr>"
  "attribute ''snmp_enabled'' = BoolAttribute\<lparr>Optional := True, Computed := True,
        Default := Some (StaticBool True)\<rparr>"
  "attribute ''snmp_version'' = StringAttribute\<lparr>Optional := True, Computed := True,
        Default := Some (StaticString ''2c'')\<rparr>"
  "attribute ''snmp_port'' = Int64Attribute\<lparr>Optional := True, Computed := True,
        Default := Some (StaticInt64 161)\<rparr>"
  "attribute ''snmpv3_security_level'' = StringAttribute\<lparr>Optional := True\<rparr>"
  "attribute ''snmpv3_username'' = StringAttribute\<lparr>Optional := True\<rparr>"
  "attribute ''snmpv3_auth_protocol'' = StringAttribute\<lparr>Optional := True\<rparr>"
  "attribute ''snmpv3_auth_password'' = StringAttribute\<lparr>Optional := True, Sensitive := True\<rparr>"
  "attribute ''snmpv3_priv_protocol'' = StringAttribute\<lparr>Optional := True\<rparr>"
  "attribute ''snmpv3_priv_password'' = StringAttribute\<lparr>Optional := True, Sensitive := True\<rparr>"
  "attribute ''inserted_at'' = StringAttribute\<lparr>Computed := True, PlanModifiers := [UseStateForUnknown]\<rparr>"
  by (simp_all add: attribute_def DeviceSchema_def)

lemmas attribute_defs = attribute_simps StringAttribute_def BoolAttribute_def Int64Attribute_def

lemma map_of_omitempty_ptr:
  "map_of (omitempty_ptr k f p) k' = (if k' = k then map_option f p else None)"
  by (simp add: omitempty_ptr_def split: option.splits)

lemma map_of_omitempty_string:
  "map_of (omitempty_string k s) k' = (if k' = k \<and> s \<noteq> [] then Some (JString s) else None)"
  by (simp add: omitempty_string_def)

lemma Create_sent:
  "\<not> HasError (Diagnostics resp) \<Longrightarrow>
   sent (snd (DeviceResource_Create r data resp n)) =
     sent n @ [newRequest r ''POST'' ''/api/v1/devices'' (device_body data)]"
  using CreateDevice_sent [of r "Device_of_data data" n]
  by (cases "CreateDevice r (Device_of_data data) n")
     (auto simp add: DeviceResource_Create_def split: sum.splits)

lemma map_of_app:
  "map_of (xs @ ys) k = (case map_of xs k of None \<Rightarrow> map_of ys k | Some v \<Rightarrow> Some v)"
  by (simp add: map_add_def)

lemma case_option_map: "(case p of None \<Rightarrow> None | Some x \<Rightarrow> Some (f x)) = map_option f p"
  by (cases p) simp_all

lemma Marshal_Device_lookup:
  "\<exists>members. Marshal_Device d = JObject members
     \<and> map_of members ''site_id'' = map_option JString (Device_SiteID d)
     \<and> map_of members ''organization_id'' = map_option JString (Device_OrganizationID d)
     \<and> map_of members ''monitoring_enabled'' = map_option JBool (Device_MonitoringEnabled d)
     \<and> map_of members ''snmp_enabled'' = map_option JBool (Device_SNMPEnabled d)
     \<and> map_of members ''snmp_version'' = map_option JString (Device_SNMPVersion d)
     \<and> map_of members ''snmp_port'' = map_option JInt (Device_SNMPPort d)"
  unfolding Marshal_Device_def
  by (simp add: map_of_app map_of_omitempty_ptr map_of_omitempty_string case_option_map
        del: map_of_append cong: option.case_cong)

lemma PlanCreate_defaults:
  "DeviceModel_MonitoringEnabled (PlanCreate config) =
     (if Bool_IsNull (DeviceModel_MonitoringEnabled config) then BoolValue True
      else DeviceModel_MonitoringEnabled config)"
  "DeviceModel_SNMPEnabled (PlanCreate config) =
     (if Bool_IsNull (DeviceModel_SNMPEnabled config) then BoolValue True
      else DeviceModel_SNMPEnabled config)"
  "DeviceModel_SNMPVersion (PlanCreate config) =
     (if String_IsNull (DeviceModel_SNMPVersion config) then StringValue ''2c''
      else DeviceModel_SNMPVersion config)"
  "DeviceModel_SNMPPort (PlanCreate config) =
     (if Int64_IsNull (DeviceModel_SNMPPort config) then Int64Value 161
      else DeviceModel_SNMPPort config)"
  by (simp_all add: PlanCreate_def plan_Bool_def plan_String_def plan_Int64_def attribute_defs)

text \<open>
  Claim C7. For a configuration that leaves \<^verbatim>\<open>monitoring_enabled\<close>, \<^verbatim>\<open>snmp_enabled\<close>,
  \<^verbatim>\<open>snmp_version\<close> and \<^verbatim>\<open>snmp_port\<close> null, the plan of the create holds the schema's
  defaults true, true, "2c" and 161 for them, the payload that \<^verbatim>\<open>Create\<close> builds from the
  plan holds these four values, and the one request that \<^verbatim>\<open>Create\<close> sends is a POST whose
  device object has them under the four keys.
\<close>

theorem defaults_in_create_payload:
  assumes "DeviceModel_MonitoringEnabled config = BoolNull"
    and "DeviceModel_SNMPEnabled config = BoolNull"
    and "DeviceModel_SNMPVersion config = StringNull"
    and "DeviceModel_SNMPPort config = Int64Null"
    and "\<not> HasError (Diagnostics resp)"
  shows "DeviceModel_MonitoringEnabled (PlanCreate config) = BoolValue True
     \<and> DeviceModel_SNMPEnabled (PlanCreate config) = BoolValue True
     \<and> DeviceModel_SNMPVersion (PlanCreate config) = StringValue ''2c''
     \<and> DeviceModel_SNMPPort (PlanCreate config) = Int64Value 161
     \<and> Device_MonitoringEnabled (Device_of_data (PlanCreate config)) = Some True
     \<and> Device_SNMPEnabled (Device_of_data (PlanCreate config)) = Some True
     \<and> Device_SNMPVersion (Device_of_data (PlanCreate config)) = Some ''2c''
     \<and> Device_SNMPPort (Device_of_data (PlanCreate config)) = Some 161
     \<and> (\<exists>req members.
           sent (snd (DeviceResource_Create r (PlanCreate config) resp n)) = sent n @ [req]
         \<and> Method req = ''POST''
         \<and> Body req = Some (JObject [(''device'', JObject members)])
         \<and> map_of members ''monitoring_enabled'' = Some (JBool True)
         \<and> map_of members ''snmp_enabled'' = Some (JBool True)
         \<and> map_of members ''snmp_version'' = Some (JString ''2c'')
         \<and> map_of members ''snmp_port'' = Some (JNumber 161))"
proof -
  let ?plan = "PlanCreate config"
  let ?d = "Device_of_data ?plan"
  have plan: "DeviceModel_MonitoringEnabled ?plan = BoolValue True"
    "DeviceModel_SNMPEnabled ?plan = BoolValue True"
    "DeviceModel_SNMPVersion ?plan = StringValue ''2c''"
    "DeviceModel_SNMPPort ?plan = Int64Value 161"
    using assms by (simp_all add: PlanCreate_defaults)
  then have dev: "Device_MonitoringEnabled ?d = Some True" "Device_SNMPEnabled ?d = Some True"
    "Device_SNMPVersion ?d = Some ''2c''" "Device_SNMPPort ?d = Some 161"
    by (simp_all add: Device_of_data_def Bool_ptr_def String_ptr_def Int64_ptr_def)
  from Marshal_Device_lookup [of ?d] dev obtain members where
    m: "Marshal_Device ?d = JObject members"
    "map_of members ''monitoring_enabled'' = Some (JBool True)"
    "map_of members ''snmp_enabled'' = Some (JBool True)"
    "map_of members ''snmp_version'' = Some (JString ''2c'')"
    "map_of members ''snmp_port'' = Some (JNumber 161)"
    by (auto simp add: JInt_def)
  let ?req = "newRequest r ''POST'' ''/api/v1/devices'' (device_body ?plan)"
  have "sent (snd (DeviceResource_Create r ?plan resp n)) = sent n @ [?req]"
    using assms(5) by (rule Create_sent)
  moreover have "Method ?req = ''POST''"
    "Body ?req = Some (JObject [(''device'', JObject members)])"
    by (simp_all add: newRequest_def m)
  ultimately have "\<exists>req members.
           sent (snd (DeviceResource_Create r ?plan resp n)) = sent n @ [req]
         \<and> Method req = ''POST''
         \<and> Body req = Some (JObject [(''device'', JObject members)])
         \<and> map_of members ''monitoring_enabled'' = Some (JBool True)
         \<and> map_of members ''snmp_enabled'' = Some (JBool True)
         \<and> map_of members ''snmp_version'' = Some (JString ''2c'')
         \<and> map_of members ''snmp_port'' = Some (JNumber 161)"
    using m by blast
  with plan dev show ?thesis by blast
qed

theorem defaults_in_create_payload_witness:
  "DeviceModel_MonitoringEnabled minimal_config = BoolNull
   \<and> DeviceModel_SNMPEnabled minimal_config = BoolNull
   \<and> DeviceModel_SNMPVersion minimal_config = StringNull
   \<and> DeviceModel_SNMPPort minimal_config = Int64Null
   \<and> \<not> HasError (Diagnostics (response_with None :: DeviceResourceModel response))
   \<and> Device_of_data (PlanCreate minimal_config) = zero_Device\<lparr>
        Device_SiteID := Some ''S1'', Device_OrganizationID := Some [], Device_Name := Some [],
        Device_IPAddress := ''192.168.1.1'', Device_MonitoringEnabled := Some True,
        Device_SNMPEnabled := Some True, Device_SNMPVersion := Some ''2c'',
        Device_SNMPPort := Some 161\<rparr>
   \<and> map Body (sent (snd (DeviceResource_Create (example_client example_server)
          (PlanCreate minimal_config) (response_with None) example_net)))
     = [Some (JObject [(''device'', JObject [
          (''site_id'', JString ''S1''),
          (''organization_id'', JString []),
          (''name'', JString []),
          (''ip_address'', JString ''192.168.1.1''),
          (''monitoring_enabled'', JBool True),
          (''snmp_enabled'', JBool True),
          (''snmp_version'', JString ''2c''),
          (''snmp_port'', JNumber 161)])])]"
proof -
  have h: "DeviceModel_MonitoringEnabled minimal_config = BoolNull"
    "DeviceModel_SNMPEnabled minimal_config = BoolNull"
    "DeviceModel_SNMPVersion minimal_config = StringNull"
    "DeviceModel_SNMPPort minimal_config = Int64Null"
    by (simp_all add: minimal_config_def null_config_def)
  have ok: "\<not> HasError (Diagnostics (response_with None :: DeviceResourceModel response))"
    by simp
  have plan: "PlanCreate minimal_config = null_config\<lparr>
      DeviceModel_ID := StringUnknown, DeviceModel_SiteID := StringValue ''S1'',
      DeviceModel_OrganizationID := StringUnknown, DeviceModel_Name := StringUnknown,
      DeviceModel_IPAddress := StringValue ''192.168.1.1'',
      DeviceModel_MonitoringEnabled := BoolValue True, DeviceModel_SNMPEnabled := BoolValue True,
      DeviceModel_SNMPVersion := StringValue ''2c'', DeviceModel_SNMPPort := Int64Value 161,
      DeviceModel_InsertedAt := StringUnknown\<rparr>"
    by (simp add: PlanCreate_def plan_Bool_def plan_String_def plan_Int64_def attribute_defs
          minimal_config_def null_config_def)
  have dev: "Device_of_data (PlanCreate minimal_config) = zero_Device\<lparr>
        Device_SiteID := Some ''S1'', Device_OrganizationID := Some [], Device_Name := Some [],
        Device_IPAddress := ''192.168.1.1'', Device_MonitoringEnabled := Some True,
        Device_SNMPEnabled := Some True, Device_SNMPVersion := Some ''2c'',
        Device_SNMPPort := Some 161\<rparr>"
    by (simp add: plan data_defs null_config_def zero_Device_def)
  from defaults_in_create_payload [OF h ok, of "example_client example_server" example_net]
  obtain req where
    "sent (snd (DeviceResource_Create (example_client example_server)
          (PlanCreate minimal_config) (response_with None) example_net)) = sent example_net @ [req]"
    by blast
  moreover from Create_sent [OF ok, of "example_client example_server" "PlanCreate minimal_config" example_net]
  have "sent (snd (DeviceResource_Create (example_client example_server)
          (PlanCreate minimal_config) (response_with None) example_net))
      = sent example_net @ [newRequest (example_client example_server) ''POST'' ''/api/v1/devices''
           (device_body (PlanCreate minimal_config))]" .
  ultimately have "map Body (sent (snd (DeviceResource_Create (example_client example_server)
          (PlanCreate minimal_config) (response_with None) example_net)))
     = [Some (JObject [(''device'', JObject [
          (''site_id'', JString ''S1''),
          (''organization_id'', JString []),
          (''name'', JString []),
          (''ip_address'', JString ''192.168.1.1''),
          (''monitoring_enabled'', JBool True),
          (''snmp_enabled'', JBool True),
          (''snmp_version'', JString ''2c''),
          (''snmp_port'', JNumber 161)])])]"
    by (simp add: dev newRequest_def example_net_def json_defs)
  with h ok dev show ?thesis by blast
qed


subsection \<open>Both parents set\<close>

lemma ValidateConfig_eq:
  "ValidateConfig config =
     (if \<not> String_IsNull (DeviceModel_ID config) then [''id''] else []) @
     (if String_IsNull (DeviceModel_IPAddress config) then [''ip_address''] else []) @
     (if \<not> String_IsNull (DeviceModel_InsertedAt config) then [''inserted_at''] else [])"
  by (simp add: ValidateConfig_def invalid_def attribute_defs)

lemma PlanCreate_parents:
  "DeviceModel_SiteID (PlanCreate config) =
     (if String_IsNull (DeviceModel_SiteID config) then StringUnknown else DeviceModel_SiteID config)"
  "DeviceModel_OrganizationID (PlanCreate config) =
     (if String_IsNull (DeviceModel_OrganizationID config) then StringUnknown
      else DeviceModel_OrganizationID config)"
  by (simp_all add: PlanCreate_def plan_String_def attribute_defs)

text \<open>
  Claim C3, as amended. For a configuration that sets both \<^verbatim>\<open>site_id\<close> and
  \<^verbatim>\<open>organization_id\<close>, validation never reports \<^verbatim>\<open>site_id\<close> or \<^verbatim>\<open>organization_id\<close> in
  error, whatever else the configuration holds; if the configuration also sets the
  required \<^verbatim>\<open>ip_address\<close> and leaves the read-only \<^verbatim>\<open>id\<close> and \<^verbatim>\<open>inserted_at\<close> unset,
  validation reports no attribute in error at all. \<^verbatim>\<open>Create\<close> on its plan sends the POST
  with both ids in the device object: nothing rejects the combination before the network
  call.
\<close>

theorem both_parents_are_sent:
  assumes "DeviceModel_SiteID config = StringValue siteID"
    and "DeviceModel_OrganizationID config = StringValue orgID"
    and "\<not> HasError (Diagnostics resp)"
  shows "''site_id'' \<notin> set (ValidateConfig config)
     \<and> ''organization_id'' \<notin> set (ValidateConfig config)
     \<and> (\<not> String_IsNull (DeviceModel_IPAddress config)
          \<and> String_IsNull (DeviceModel_ID config)
          \<and> String_IsNull (DeviceModel_InsertedAt config) \<longrightarrow> ValidateConfig config = [])
     \<and> Device_SiteID (Device_of_data (PlanCreate config)) = Some siteID
     \<and> Device_OrganizationID (Device_of_data (PlanCreate config)) = Some orgID
     \<and> (\<exists>req members.
           sent (snd (DeviceResource_Create r (PlanCreate config) resp n)) = sent n @ [req]
         \<and> Method req = ''POST''
         \<and> Body req = Some (JObject [(''device'', JObject members)])
         \<and> map_of members ''site_id'' = Some (JString siteID)
         \<and> map_of members ''organization_id'' = Some (JString orgID))"
proof -
  let ?plan = "PlanCreate config"
  let ?d = "Device_of_data ?plan"
  have v: "''site_id'' \<notin> set (ValidateConfig config)"
    "''organization_id'' \<notin> set (ValidateConfig config)"
    "\<not> String_IsNull (DeviceModel_IPAddress config)
          \<and> String_IsNull (DeviceModel_ID config)
          \<and> String_IsNull (DeviceModel_InsertedAt config) \<longrightarrow> ValidateConfig config = []"
    by (simp_all add: ValidateConfig_eq)
  have dev: "Device_SiteID ?d = Some siteID" "Device_OrganizationID ?d = Some orgID"
    using assms(1,2) by (simp_all add: Device_of_data_def String_ptr_def PlanCreate_parents)
  from Marshal_Device_lookup [of ?d] dev obtain members where
    m: "Marshal_Device ?d = JObject members"
    "map_of members ''site_id'' = Some (JString siteID)"
    "map_of members ''organization_id'' = Some (JString orgID)"
    by auto
  let ?req = "newRequest r ''POST'' ''/api/v1/devices'' (device_body ?plan)"
  have "sent (snd (DeviceResource_Create r ?plan resp n)) = sent n @ [?req]"
    using assms(3) by (rule Create_sent)
  moreover have "Method ?req = ''POST''"
    "Body ?req = Some (JObject [(''device'', JObject members)])"
    by (simp_all add: newRequest_def m)
  ultimately have "\<exists>req members.
           sent (snd (DeviceResource_Create r ?plan resp n)) = sent n @ [req]
         \<and> Method req = ''POST''
         \<and> Body req = Some (JObject [(''device'', JObject members)])
         \<and> map_of members ''site_id'' = Some (JString siteID)
         \<and> map_of members ''organization_id'' = Some (JString orgID)"
    using m by blast
  with v dev show ?thesis by blast
qed

theorem both_parents_are_sent_witness:
  "DeviceModel_SiteID both_config = StringValue ''site-A''
   \<and> DeviceModel_OrganizationID both_config = StringValue ''org-1''
   \<and> \<not> HasError (Diagnostics (response_with None :: DeviceResourceModel response))
   \<and> \<not> String_IsNull (DeviceModel_IPAddress both_config)
   \<and> String_IsNull (DeviceModel_ID both_config)
   \<and> String_IsNull (DeviceModel_InsertedAt both_config)
   \<and> ValidateConfig both_config = []
   \<and> Device_SiteID (Device_of_data (PlanCreate both_config)) = Some ''site-A''
   \<and> Device_OrganizationID (Device_of_data (PlanCreate both_config)) = Some ''org-1''
   \<and> (\<exists>req members.
         sent (snd (DeviceResource_Create (example_client example_server) (PlanCreate both_config)
           (response_with None) example_net)) = [req]
       \<and> Method req = ''POST''
       \<and> Body req = Some (JObject [(''device'', JObject members)])
       \<and> map_of members ''site_id'' = Some (JString ''site-A'')
       \<and> map_of members ''organization_id'' = Some (JString ''org-1''))"
proof -
  have h: "DeviceModel_SiteID both_config = StringValue ''site-A''"
    "DeviceModel_OrganizationID both_config = StringValue ''org-1''"
    by (simp_all add: both_config_def null_config_def)
  have g: "\<not> String_IsNull (DeviceModel_IPAddress both_config)"
    "String_IsNull (DeviceModel_ID both_config)"
    "String_IsNull (DeviceModel_InsertedAt both_config)"
    by (simp_all add: both_config_def null_config_def)
  have ok: "\<not> HasError (Diagnostics (response_with None :: DeviceResourceModel response))"
    by simp
  have e: "sent example_net = []"
    by (simp add: example_net_def)
  from both_parents_are_sent [OF h ok, of "example_client example_server" example_net] h g ok
  show ?thesis
    unfolding e append_Nil by blast
qed

text \<open>
  The claim as stated fails: the configuration below sets both parents and the address
  and nothing else, validation finds nothing, and the create sends its request and
  reports no error.
\<close>

theorem both_parents_counterexample:
  "DeviceModel_SiteID both_config = StringValue ''site-A''
   \<and> DeviceModel_OrganizationID both_config = StringValue ''org-1''
   \<and> ValidateConfig both_config = []
   \<and> sent (snd (DeviceResource_Create (example_client example_server) (PlanCreate both_config)
        (response_with None) example_net))
     = [\<lparr>Method = ''POST'', URL = ''https://towerops.net/api/v1/devices'',
         Header = [(''Authorization'', ''Bearer test-token''),
                   (''Content-Type'', ''application/json''),
                   (''Accept'', ''application/json'')],
         Body = Some (JObject [(''device'', JObject [
           (''site_id'', JString ''site-A''),
           (''organization_id'', JString ''org-1''),
           (''name'', JString []),
           (''ip_address'', JString ''192.168.1.1''),
           (''monitoring_enabled'', JBool True),
           (''snmp_enabled'', JBool True),
           (''snmp_version'', JString ''2c''),
           (''snmp_port'', JNumber 161)])])\<rparr>]
   \<and> Diagnostics (fst (DeviceResource_Create (example_client example_server)
        (PlanCreate both_config) (response_with None) example_net)) = []"
proof -
  have plan: "PlanCreate both_config = null_config\<lparr>
      DeviceModel_ID := StringUnknown, DeviceModel_SiteID := StringValue ''site-A'',
      DeviceModel_OrganizationID := StringValue ''org-1'', DeviceModel_Name := StringUnknown,
      DeviceModel_IPAddress := StringValue ''192.168.1.1'',
      DeviceModel_MonitoringEnabled := BoolValue True, DeviceModel_SNMPEnabled := BoolValue True,
      DeviceModel_SNMPVersion := StringValue ''2c'', DeviceModel_SNMPPort := Int64Value 161,
      DeviceModel_InsertedAt := StringUnknown\<rparr>"
    by (simp add: PlanCreate_def plan_Bool_def plan_String_def plan_Int64_def attribute_defs
          both_config_def null_config_def)
  have v: "ValidateConfig both_config = []"
    by (simp add: ValidateConfig_eq both_config_def null_config_def)
  show ?thesis
    unfolding plan v
    by (simp add: DeviceResource_Create_def Create_data_def client_defs json_defs data_defs
          example_defs example_server_def both_config_def null_config_def)
qed

subsection \<open>A change of parent\<close>

lemma Device_RequiresReplace_iff:
  "Device_RequiresReplace state plan \<longleftrightarrow>
     DeviceModel_SiteID plan \<noteq> DeviceModel_SiteID state
     \<or> DeviceModel_OrganizationID plan \<noteq> DeviceModel_OrganizationID state"
  by (simp add: Device_RequiresReplace_def replaces_def attribute_defs)

lemma DeleteDevice_sent:
  "sent (snd (DeleteDevice c i n)) = sent n @ [newRequest c ''DELETE'' (''/api/v1/devices/'' @ i) None]"
  using doRequest_net [of c "''DELETE''" "''/api/v1/devices/'' @ i" None n]
  by (cases "doRequest c ''DELETE'' (''/api/v1/devices/'' @ i) None n")
     (auto simp add: DeleteDevice_def split: sum.splits)

lemma Delete_sent:
  "\<not> HasError (Diagnostics resp) \<Longrightarrow>
   sent (snd (DeviceResource_Delete r data resp n)) =
     sent n @ [newRequest r ''DELETE'' (device_path data) None]"
  using DeleteDevice_sent [of r "ValueString (DeviceModel_ID data)" n]
  by (cases "DeleteDevice r (ValueString (DeviceModel_ID data)) n")
     (auto simp add: DeviceResource_Delete_def split: option.splits)

lemma ApplyChange_replace:
  assumes "Device_RequiresReplace state plan"
  shows "Device_ApplyChange r state plan n =
     (if HasError (Diagnostics (fst (DeviceResource_Delete r state (response_with (Some state)) n)))
      then DeviceResource_Delete r state (response_with (Some state)) n
      else DeviceResource_Create r plan (response_with None)
             (snd (DeviceResource_Delete r state (response_with (Some state)) n)))"
  using assms
  by (cases "DeviceResource_Delete r state (response_with (Some state)) n")
     (simp add: Device_ApplyChange_def)

text \<open>
  Claim C9. The schema gives \<^verbatim>\<open>site_id\<close> and \<^verbatim>\<open>organization_id\<close> the
  \<^verbatim>\<open>RequiresReplace\<close> modifier. So a plan whose \<^verbatim>\<open>site_id\<close> or \<^verbatim>\<open>organization_id\<close> differs from
  the stored one is a replacement: applying it sends the DELETE of the stored device and,
  if that succeeds, the POST of the planned one, and no PATCH. When \<^verbatim>\<open>Update\<close> does run,
  the plan is no replacement, and the \<^verbatim>\<open>site_id\<close> and \<^verbatim>\<open>organization_id\<close> of the update
  payload are the stored ones.
\<close>

theorem parent_change_is_replacement:
  "RequiresReplace \<in> set (PlanModifiers (attribute ''site_id''))
   \<and> RequiresReplace \<in> set (PlanModifiers (attribute ''organization_id''))
   \<and> (DeviceModel_SiteID plan \<noteq> DeviceModel_SiteID state
        \<or> DeviceModel_OrganizationID plan \<noteq> DeviceModel_OrganizationID state \<longrightarrow>
      Device_RequiresReplace state plan
      \<and> sent (snd (Device_ApplyChange r state plan n)) =
          sent n @ newRequest r ''DELETE'' (device_path state) None #
            (if fst (DeleteDevice r (ValueString (DeviceModel_ID state)) n) = None
             then [newRequest r ''POST'' ''/api/v1/devices'' (device_body plan)] else [])
      \<and> list_all (\<lambda>req. Method req \<noteq> ''PATCH'')
          (drop (length (sent n)) (sent (snd (Device_ApplyChange r state plan n)))))
   \<and> (\<not> Device_RequiresReplace state plan \<longrightarrow>
      Device_ApplyChange r state plan n =
        DeviceResource_Update r plan (response_with (Some state)) n
      \<and> Device_SiteID (Device_of_data plan) = String_ptr (DeviceModel_SiteID state)
      \<and> Device_OrganizationID (Device_of_data plan) = String_ptr (DeviceModel_OrganizationID state))"
proof (intro conjI impI)
  show "RequiresReplace \<in> set (PlanModifiers (attribute ''site_id''))"
    "RequiresReplace \<in> set (PlanModifiers (attribute ''organization_id''))"
    by (simp_all add: attribute_defs)
next
  assume changed: "DeviceModel_SiteID plan \<noteq> DeviceModel_SiteID state
        \<or> DeviceModel_OrganizationID plan \<noteq> DeviceModel_OrganizationID state"
  then show rr: "Device_RequiresReplace state plan"
    by (simp add: Device_RequiresReplace_iff)
  let ?del = "DeviceResource_Delete r state (response_with (Some state)) n"
  let ?dd = "DeleteDevice r (ValueString (DeviceModel_ID state)) n"
  have ds: "sent (snd ?del) = sent n @ [newRequest r ''DELETE'' (device_path state) None]"
    by (simp add: Delete_sent)
  have dh: "HasError (Diagnostics (fst ?del)) \<longleftrightarrow> fst ?dd \<noteq> None"
    by (cases "fst ?dd") (simp_all add: Delete_fst)
  show s: "sent (snd (Device_ApplyChange r state plan n)) =
          sent n @ newRequest r ''DELETE'' (device_path state) None #
            (if fst ?dd = None
             then [newRequest r ''POST'' ''/api/v1/devices'' (device_body plan)] else [])"
  proof (cases "fst ?dd = None")
    case True
    with dh have "Device_ApplyChange r state plan n =
        DeviceResource_Create r plan (response_with None) (snd ?del)"
      using rr by (simp add: ApplyChange_replace)
    with True ds show ?thesis
      by (simp add: Create_sent)
  next
    case False
    with dh have "Device_ApplyChange r state plan n = ?del"
      using rr by (simp add: ApplyChange_replace)
    with False ds show ?thesis
      by simp
  qed
  show "list_all (\<lambda>req. Method req \<noteq> ''PATCH'')
          (drop (length (sent n)) (sent (snd (Device_ApplyChange r state plan n))))"
    by (simp add: s newRequest_def)
next
  assume nr: "\<not> Device_RequiresReplace state plan"
  then show "Device_ApplyChange r state plan n =
        DeviceResource_Update r plan (response_with (Some state)) n"
    by (simp add: Device_ApplyChange_def)
  from nr show "Device_SiteID (Device_of_data plan) = String_ptr (DeviceModel_SiteID state)"
    "Device_OrganizationID (Device_of_data plan) = String_ptr (DeviceModel_OrganizationID state)"
    by (simp_all add: Device_RequiresReplace_iff Device_of_data_def)
qed

theorem parent_change_is_replacement_witness:
  "DeviceModel_SiteID example_data = StringValue ''site-123''
   \<and> DeviceModel_SiteID moved_plan = StringValue ''site-B''
   \<and> Device_RequiresReplace example_data moved_plan
   \<and> map Method (sent (snd (Device_ApplyChange (example_client example_server) example_data
        moved_plan example_net))) = [''DELETE'', ''POST'']
   \<and> \<not> Device_RequiresReplace example_data example_other
   \<and> Device_SiteID (Device_of_data example_other) = Some ''site-123''"
proof -
  let ?r = "example_client example_server"
  have ch: "DeviceModel_SiteID moved_plan \<noteq> DeviceModel_SiteID example_data
        \<or> DeviceModel_OrganizationID moved_plan \<noteq> DeviceModel_OrganizationID example_data"
    by (simp add: moved_plan_def example_data_def)
  have d: "fst (DeleteDevice ?r (ValueString (DeviceModel_ID example_data)) example_net) = None"
    by (simp add: client_defs example_defs example_server_def)
  note main = parent_change_is_replacement [of moved_plan example_data ?r example_net]
  from main ch have rr: "Device_RequiresReplace example_data moved_plan"
    by blast
  from main ch d have "sent (snd (Device_ApplyChange ?r example_data moved_plan example_net)) =
      sent example_net @ [newRequest ?r ''DELETE'' (device_path example_data) None,
        newRequest ?r ''POST'' ''/api/v1/devices'' (device_body moved_plan)]"
    by simp
  then have m: "map Method (sent (snd (Device_ApplyChange ?r example_data moved_plan example_net)))
      = [''DELETE'', ''POST'']"
    by (simp add: newRequest_def example_net_def)
  have nr: "\<not> Device_RequiresReplace example_data example_other"
    by (simp add: Device_RequiresReplace_iff example_other_def)
  from parent_change_is_replacement [of example_other example_data ?r example_net] nr
  have "Device_SiteID (Device_of_data example_other) = String_ptr (DeviceModel_SiteID example_data)"
    by blast
  then have p: "Device_SiteID (Device_of_data example_other) = Some ''site-123''"
    by (simp add: String_ptr_def example_data_def)
  from rr m nr p show ?thesis
    by (simp add: moved_plan_def example_data_def)
qed

subsection \<open>The envelope\<close>


lemma into_int_ptr_JInt [simp]: "into_int_ptr (JInt i) = Some (Some i)"
  using sint_ge [of i] sint_lt [of i] by (simp add: JInt_def)







































end
